theory Spec2Isabelle
  imports Main "HOL-Library.Sublist" "HOL-Library.Multiset"
begin

section \<open>Data of the hosting API\<close>

text \<open>
  Go errors. A value handed back by the client library is opaque (\<open>Err\<close>);
  \<open>fmt.Errorf(format, args..., err)\<close> is kept as its format, its string arguments
  and the wrapped error.
\<close>

datatype error = Err string | Errorf string "string list" error

text \<open>
  \<open>github.Response\<close>: the two fields the sources read.
\<close>

record Response =
  StatusCode :: int
  NextPage :: int

text \<open>
  What a call of the client returns, \<open>(value, resp, err)\<close>. With \<open>err == nil\<close> the
  library gives the decoded value and the response; with \<open>err != nil\<close> the value is
  nil and the response is nil when the request never got an HTTP answer.
\<close>

datatype 'a api_result = Success 'a Response | Failure error "Response option"

fun resp :: "'a api_result \<Rightarrow> Response option" where
  "resp (Success v r) = Some r"
| "resp (Failure e r) = r"

fun err :: "'a api_result \<Rightarrow> error option" where
  "err (Success v r) = None"
| "err (Failure e r) = Some e"

text \<open>\<open>resp != nil && resp.StatusCode == 404\<close>\<close>

definition is404 :: "'a api_result \<Rightarrow> bool" where
  "is404 r = (case resp r of None \<Rightarrow> False | Some rp \<Rightarrow> StatusCode rp = 404)"

record ListOptions =
  Page :: int
  PerPage :: int

text \<open>
  Modelled from the spec: the types of the go-github library are not among the
  sources. A commit record is its SHA and its message text; a pull request event gives
  the owner login, the repository name and the number; a status has the four fields
  the handler fills in.
\<close>

record RepositoryCommit =
  SHA :: string
  Message :: string

record PullRequestEvent =
  Owner_Login :: string
  Repo_Name :: string
  Number :: int

record RepoStatus =
  State :: string
  TargetURL :: string
  Description :: string
  Context :: string

text \<open>
  A repository is read through its getters; the fields carry their names.
\<close>

record Repository =
  GetName :: string
  GetFullName :: string
  GetDefaultBranch :: string
  GetHTMLURL :: string
  GetContentsURL :: string

text \<open>
  A value of type \<open>interface{}\<close> in a hook's configuration: a string, or a value of
  another dynamic type (which no string equals).
\<close>

datatype iface = IString string | IOther

record Hook =
  Name :: string
  Events :: "string list"
  Active :: bool
  Config :: "(string \<times> iface) list"

record RequiredStatusChecks =
  Strict :: bool
  Contexts :: "string list"

record AdminEnforcement =
  Enabled :: bool

text \<open>
  The branch protection as it is read, and the request that writes it. The pointer
  \<open>RequiredStatusChecks\<close> may be nil.
\<close>

record Protection =
  RequiredStatusChecks :: "RequiredStatusChecks option"
  EnforceAdmins :: AdminEnforcement

record ProtectionRequest =
  req_EnforceAdmins :: bool
  req_RequiredStatusChecks :: "RequiredStatusChecks option"

text \<open>An inbound request: its body and the two headers the library reads.\<close>

record Request =
  Body :: string
  X_Hub_Signature :: string
  X_GitHub_Event :: string

text \<open>What \<open>github.ParseWebHook\<close> decodes: the arms of the handler's type switch.\<close>

datatype webhook_event = PullRequest PullRequestEvent | Ping | Other

text \<open>
  Modelled from the spec: package \<open>constants\<close> is not among the sources. The spec
  calls \<open>SignOffCheckerContext\<close> a fixed constant string; the value here is the
  literal that the earlier one-file handler (\<open>HandlePullRequest\<close>) gives as status
  context. No theorem below depends on the value.
\<close>

definition SignOffCheckerContext :: string where
  "SignOffCheckerContext = ''signed-off-by''"

section \<open>Effects\<close>

text \<open>
  Everything the program does to the outside is an event of a trace, in order: a call
  of the hosting API with its arguments and what came back, a line of the log
  (\<open>log.Printf\<close>: format, string arguments, error argument), an \<open>http.Error\<close>
  written to the response (format of the body, its error argument, status code).
\<close>

datatype event =
    ListCommits string string int ListOptions "RepositoryCommit list api_result"
  | CreateStatus string string string RepoStatus "error option"
  | ListHooks string string ListOptions "Hook list api_result"
  | CreateHook string string Hook "error option"
  | ListByOrg string string ListOptions "Repository list api_result"
  | Do string string "string api_result"
  | ListRequiredStatusChecksContexts string string string "string list api_result"
  | GetBranchProtection string string string "Protection api_result"
  | UpdateBranchProtection string string string ProtectionRequest "error option"
  | Printf string "string list" "error option"
  | HTTPError string error int

type_synonym trace = "event list"

text \<open>
  The client: what the remote answers to a call is a function of the call and of
  everything that happened before it.
\<close>

record Client =
  PullRequests_ListCommits ::
    "trace \<Rightarrow> string \<Rightarrow> string \<Rightarrow> int \<Rightarrow> ListOptions \<Rightarrow> RepositoryCommit list api_result"
  Repositories_CreateStatus ::
    "trace \<Rightarrow> string \<Rightarrow> string \<Rightarrow> string \<Rightarrow> RepoStatus \<Rightarrow> error option"
  Repositories_ListHooks ::
    "trace \<Rightarrow> string \<Rightarrow> string \<Rightarrow> ListOptions \<Rightarrow> Hook list api_result"
  Repositories_CreateHook ::
    "trace \<Rightarrow> string \<Rightarrow> string \<Rightarrow> Hook \<Rightarrow> error option"
  Repositories_ListByOrg ::
    "trace \<Rightarrow> string \<Rightarrow> string \<Rightarrow> ListOptions \<Rightarrow> Repository list api_result"
  Client_Do ::
    "trace \<Rightarrow> string \<Rightarrow> string \<Rightarrow> string api_result"
  Repositories_ListRequiredStatusChecksContexts ::
    "trace \<Rightarrow> string \<Rightarrow> string \<Rightarrow> string \<Rightarrow> string list api_result"
  Repositories_GetBranchProtection ::
    "trace \<Rightarrow> string \<Rightarrow> string \<Rightarrow> string \<Rightarrow> Protection api_result"
  Repositories_UpdateBranchProtection ::
    "trace \<Rightarrow> string \<Rightarrow> string \<Rightarrow> string \<Rightarrow> ProtectionRequest \<Rightarrow> error option"

text \<open>
  The library functions that are no calls of the remote are parameters: the keyed hash
  that \<open>github.ValidatePayload\<close> compares the signature header with (as the header
  would spell it), \<open>github.ParseWebHook\<close>, the error of \<open>http.NewRequest\<close> for a
  method and a URL, and \<open>base64.StdEncoding.DecodeString\<close>.
\<close>

record Library =
  hmac :: "string \<Rightarrow> string \<Rightarrow> string"
  ParseWebHook :: "string \<Rightarrow> string \<Rightarrow> error + webhook_event"
  NewRequest :: "string \<Rightarrow> string \<Rightarrow> error option"
  DecodeString :: "string \<Rightarrow> error + string"

text \<open>A Go call ends by returning or by a panic (here: a nil pointer dereference).\<close>

datatype 'a outcome = Return 'a | Panic

section \<open>pkg/webhook\<close>

subsection \<open>The regular expression\<close>

text \<open>
  \<open>testRE = regexp.MustCompile(`(?mi)^signed-off-by:`)\<close>. Under \<open>(?i)\<close> a letter of
  the pattern matches every rune of its simple case folding orbit; the text is UTF-8, so
  each position of the pattern is the list of byte strings it accepts. The orbit of
  \<open>s\<close> has a third member, U+017F (bytes C5 BF).
\<close>

definition testRE :: "string list list" where
  "testRE =
    [[''s'', ''S'', [CHR 0xC5, CHR 0xBF]], [''i'', ''I''], [''g'', ''G''], [''n'', ''N''],
     [''e'', ''E''], [''d'', ''D''], [''-''], [''o'', ''O''], [''f'', ''F''], [''f'', ''F''],
     [''-''], [''b'', ''B''], [''y'', ''Y''], ['':'']]"

text \<open>The pattern after \<open>^\<close>, matched at the head of the text.\<close>

fun match_here :: "string list list \<Rightarrow> string \<Rightarrow> bool" where
  "match_here [] s = True"
| "match_here (alts # rest) s =
     list_ex (\<lambda>a. prefix a s \<and> match_here rest (drop (length a) s)) alts"

text \<open>
  Under \<open>(?m)\<close>, \<open>^\<close> holds at the beginning of the text and right after every
  line feed.
\<close>

fun after_newlines :: "string \<Rightarrow> string list" where
  "after_newlines [] = []"
| "after_newlines (c # cs) = (if c = CHR 0x0A then [cs] else []) @ after_newlines cs"

definition line_starts :: "string \<Rightarrow> string list" where
  "line_starts s = s # after_newlines s"

definition testRE_MatchString :: "string \<Rightarrow> bool" where
  "testRE_MatchString s = list_ex (match_here testRE) (line_starts s)"

text \<open>The lines of a text: what stands between line feeds.\<close>

fun split_lines :: "string \<Rightarrow> string list" where
  "split_lines [] = [[]]"
| "split_lines (c # cs) =
     (if c = CHR 0x0A then [] # split_lines cs
      else (case split_lines cs of [] \<Rightarrow> [[c]] | l # ls \<Rightarrow> (c # l) # ls))"

subsection \<open>handlePullRequest\<close>

record Handler =
  Secret :: string
  GitHub :: Client

text \<open>
  The first loop: the pages of the commit listing, collected into \<open>allCommits\<close>.
  \<open>None\<close> inside the result says that the handler logged the error and returned.
  The loop ends when the remote sends \<open>NextPage = 0\<close>; it need not.
\<close>

partial_function (option) listAllCommits ::
  "Client \<Rightarrow> string \<Rightarrow> string \<Rightarrow> int \<Rightarrow> ListOptions \<Rightarrow> RepositoryCommit list \<Rightarrow> trace
    \<Rightarrow> (RepositoryCommit list option \<times> trace) option" where
  "listAllCommits gh owner repo number opt allCommits t =
     (let r = PullRequests_ListCommits gh t owner repo number opt;
          t1 = t @ [ListCommits owner repo number opt r]
      in case r of
           Failure e rp \<Rightarrow>
             Some (None, t1 @ [Printf ''Error getting commits for PR: %v'' [] (Some e)])
         | Success commits rp \<Rightarrow>
             if NextPage rp = 0 then Some (Some (allCommits @ commits), t1)
             else listAllCommits gh owner repo number (opt\<lparr>Page := NextPage rp\<rparr>)
                    (allCommits @ commits) t1)"

declare listAllCommits.simps [code]

text \<open>The second loop: is there a commit whose message the expression does not match?\<close>

fun signMissing :: "RepositoryCommit list \<Rightarrow> bool" where
  "signMissing [] = False"
| "signMissing (commit # rest) =
     (if \<not> testRE_MatchString (Message commit) then True else signMissing rest)"

text \<open>The status that every commit of the pull request gets.\<close>

definition status_of :: "string \<Rightarrow> string \<Rightarrow> bool \<Rightarrow> RepoStatus" where
  "status_of owner repo missing =
     \<lparr>State = (if missing then ''failure'' else ''success''),
      TargetURL = ''https://github.com/'' @ owner @ ''/'' @ repo @ ''/blob/master/CONTRIBUTING.md'',
      Description =
        (if missing then ''A commit in PR is missing Signed-off-by''
         else ''Commit has Signed-off-by''),
      Context = SignOffCheckerContext\<rparr>"

text \<open>The third loop: one \<open>CreateStatus\<close> for each commit; an error is logged.\<close>

fun createStatuses ::
  "Client \<Rightarrow> string \<Rightarrow> string \<Rightarrow> bool \<Rightarrow> RepositoryCommit list \<Rightarrow> trace \<Rightarrow> trace" where
  "createStatuses gh owner repo missing [] t = t"
| "createStatuses gh owner repo missing (commit # rest) t =
     (let status = status_of owner repo missing;
          e = Repositories_CreateStatus gh t owner repo (SHA commit) status;
          t1 = t @ [CreateStatus owner repo (SHA commit) status e];
          t2 = (case e of None \<Rightarrow> t1
                | Some x \<Rightarrow> t1 @ [Printf ''Error setting status: %v'' [] (Some x)])
      in createStatuses gh owner repo missing rest t2)"

definition handlePullRequest :: "Handler \<Rightarrow> PullRequestEvent \<Rightarrow> trace \<Rightarrow> trace option" where
  "handlePullRequest h event t =
     (let owner = Owner_Login event; repo = Repo_Name event; number = Number event in
      case listAllCommits (GitHub h) owner repo number \<lparr>Page = 0, PerPage = 10\<rparr> [] t of
        None \<Rightarrow> None
      | Some (None, t1) \<Rightarrow> Some t1
      | Some (Some allCommits, t1) \<Rightarrow>
          Some (createStatuses (GitHub h) owner repo (signMissing allCommits) allCommits t1))"

subsection \<open>ServeHTTP\<close>

text \<open>
  Modelled from the spec: \<open>github.ValidatePayload\<close> belongs to the go-github
  library, which is not among the sources. It computes the keyed hash of the body with
  the secret, compares it with the signature header and rejects a mismatch with an
  error; when they agree it gives the body back.
\<close>

definition ValidatePayload :: "Library \<Rightarrow> Request \<Rightarrow> string \<Rightarrow> error + string" where
  "ValidatePayload lib r secretKey =
     (if X_Hub_Signature r = hmac lib secretKey (Body r) then Inr (Body r)
      else Inl (Err ''payload signature check failed''))"

definition WebHookType :: "Request \<Rightarrow> string" where
  "WebHookType r = X_GitHub_Event r"

definition ServeHTTP :: "Library \<Rightarrow> Handler \<Rightarrow> Request \<Rightarrow> trace \<Rightarrow> trace option" where
  "ServeHTTP lib h r t =
     (case ValidatePayload lib r (Secret h) of
        Inl e \<Rightarrow> Some (t @ [HTTPError ''Could not validate signature: %v'' e 400])
      | Inr payload \<Rightarrow>
          (let hooktype = WebHookType r in
           case ParseWebHook lib hooktype payload of
             Inl e \<Rightarrow> Some (t @ [HTTPError ''Error parsing payload: %v'' e 400])
           | Inr (PullRequest event) \<Rightarrow> handlePullRequest h event t
           | Inr Ping \<Rightarrow> Some t
           | Inr Other \<Rightarrow> Some (t @ [Printf ''Unhandled hook type: %v'' [hooktype] None])))"

section \<open>pkg/register\<close>

subsection \<open>Webhooks\<close>

text \<open>\<open>hook.Config["url"] == url\<close>\<close>

definition has_url :: "string \<Rightarrow> Hook \<Rightarrow> bool" where
  "has_url url hook = (map_of (Config hook) ''url'' = Some (IString url))"

text \<open>
  The loop of \<open>hasSignOffHook\<close>, from the page that \<open>opt\<close> names. \<open>Inl\<close> is the
  error, \<open>Inr\<close> the boolean returned with a nil error.
\<close>

partial_function (option) hasSignOffHook_from ::
  "Client \<Rightarrow> string \<Rightarrow> Repository \<Rightarrow> string \<Rightarrow> ListOptions \<Rightarrow> trace
    \<Rightarrow> ((error + bool) \<times> trace) option" where
  "hasSignOffHook_from gh org repo url opt t =
     (let r = Repositories_ListHooks gh t org (GetName repo) opt;
          t1 = t @ [ListHooks org (GetName repo) opt r]
      in if is404 r then Some (Inr False, t1)
         else case r of
           Failure e rp \<Rightarrow>
             Some (Inl (Errorf ''Error listing hooks for %q: %v'' [GetFullName repo] e), t1)
         | Success hooks rp \<Rightarrow>
             if list_ex (has_url url) hooks then Some (Inr True, t1)
             else if NextPage rp = 0 then Some (Inr False, t1)
             else hasSignOffHook_from gh org repo url (opt\<lparr>Page := NextPage rp\<rparr>) t1)"

declare hasSignOffHook_from.simps [code]

definition hasSignOffHook ::
  "Client \<Rightarrow> string \<Rightarrow> Repository \<Rightarrow> string \<Rightarrow> trace \<Rightarrow> ((error + bool) \<times> trace) option" where
  "hasSignOffHook gh org repo url t =
     hasSignOffHook_from gh org repo url \<lparr>Page = 0, PerPage = 10\<rparr> t"

definition addSignOffHook ::
  "Client \<Rightarrow> string \<Rightarrow> Repository \<Rightarrow> string \<Rightarrow> string \<Rightarrow> trace \<Rightarrow> error option \<times> trace" where
  "addSignOffHook gh org repo url secret t =
     (let hook = \<lparr>Name = ''web'', Events = [''pull_request''], Active = True,
                  Config = [(''url'', IString url), (''secret'', IString secret),
                            (''content_type'', IString ''json'')]\<rparr>;
          e = Repositories_CreateHook gh t org (GetName repo) hook;
          t1 = t @ [CreateHook org (GetName repo) hook e]
      in case e of
           Some x \<Rightarrow> (Some (Errorf ''Error registering webhook: %v'' [] x), t1)
         | None \<Rightarrow> (None, t1))"

subsection \<open>Contribution guide\<close>

text \<open>\<open>strings.Contains\<close>\<close>

fun strings_Contains :: "string \<Rightarrow> string \<Rightarrow> bool" where
  "strings_Contains [] substr = (substr = [])"
| "strings_Contains (c # cs) substr = (prefix substr (c # cs) \<or> strings_Contains cs substr)"

text \<open>\<open>strings.Replace(s, old, new, 1)\<close> for a non-empty \<open>old\<close>\<close>

fun strings_Replace_1 :: "string \<Rightarrow> string \<Rightarrow> string \<Rightarrow> string" where
  "strings_Replace_1 [] old new = []"
| "strings_Replace_1 (c # cs) old new =
     (if prefix old (c # cs) then new @ drop (length old) (c # cs)
      else c # strings_Replace_1 cs old new)"

definition isDCO :: "string \<Rightarrow> bool" where
  "isDCO contributingDoc = strings_Contains contributingDoc ''Developer Certificate of Origin''"

definition getContributing ::
  "Library \<Rightarrow> Client \<Rightarrow> Repository \<Rightarrow> trace \<Rightarrow> (error + string) \<times> trace" where
  "getContributing lib gh repo t =
     (let url = strings_Replace_1 (GetContentsURL repo) ''{+path}'' ''CONTRIBUTING.md'' in
      case NewRequest lib ''GET'' url of
        Some e \<Rightarrow>
          (Inl (Errorf ''Could not construct CONTRIBUTING.md request for %q: %v''
                  [GetFullName repo] e), t)
      | None \<Rightarrow>
          (let r = Client_Do gh t ''GET'' url;
               t1 = t @ [Do ''GET'' url r]
           in if is404 r then (Inr [], t1)
              else case r of
                Failure e rp \<Rightarrow>
                  (Inl (Errorf ''Error getting CONTRIBUTING.md for %q: %v''
                          [GetFullName repo] e), t1)
              | Success ContentBase64 rp \<Rightarrow>
                  (case DecodeString lib ContentBase64 of
                     Inl e \<Rightarrow>
                       (Inl (Errorf ''Error decoding CONTRIBUTING.md for %q: %v''
                               [GetFullName repo] e), t1)
                   | Inr contributing \<Rightarrow> (Inr contributing, t1))))"

subsection \<open>Branch protection\<close>

definition hasBranchProtection ::
  "Client \<Rightarrow> string \<Rightarrow> Repository \<Rightarrow> trace \<Rightarrow> (error + bool) \<times> trace" where
  "hasBranchProtection gh org repo t =
     (let r = Repositories_ListRequiredStatusChecksContexts gh t org (GetName repo)
                (GetDefaultBranch repo);
          t1 = t @ [ListRequiredStatusChecksContexts org (GetName repo)
                      (GetDefaultBranch repo) r]
      in if is404 r then (Inr False, t1)
         else case r of
           Failure e rp \<Rightarrow>
             (Inl (Errorf ''Error getting branch protection configuration for %q: %v''
                     [GetFullName repo] e), t1)
         | Success contexts rp \<Rightarrow>
             (Inr (list_ex (\<lambda>context. context = SignOffCheckerContext) contexts), t1))"

text \<open>
  \<open>err != nil && resp != nil && resp.StatusCode != 404\<close>: the error, when the test
  holds.
\<close>

definition other_than_404 :: "'a api_result \<Rightarrow> error option" where
  "other_than_404 r =
     (case err r of
        None \<Rightarrow> None
      | Some e \<Rightarrow>
          (case resp r of
             None \<Rightarrow> None
           | Some rp \<Rightarrow> if StatusCode rp \<noteq> 404 then Some e else None))"

text \<open>
  \<open>addBranchProtection\<close>. After the first test the code reads \<open>resp.StatusCode\<close>
  without asking whether \<open>resp\<close> is nil, and then the fields of \<open>existing\<close>. It
  reads the protection of the default branch and writes to the branch \<open>"master"\<close>.
\<close>

definition addBranchProtection ::
  "Client \<Rightarrow> string \<Rightarrow> Repository \<Rightarrow> trace \<Rightarrow> error option outcome \<times> trace" where
  "addBranchProtection gh org repo t =
     (let r = Repositories_GetBranchProtection gh t org (GetName repo) (GetDefaultBranch repo);
          t1 = t @ [GetBranchProtection org (GetName repo) (GetDefaultBranch repo) r]
      in case other_than_404 r of
           Some e \<Rightarrow>
             (Return (Some (Errorf
                ''Error getting branch protection configuration for %q: %v''
                [GetFullName repo] e)), t1)
         | None \<Rightarrow>
         case resp r of
           None \<Rightarrow> (Panic, t1)
         | Some rp \<Rightarrow>
             if StatusCode rp = 404 then
               (let request = \<lparr>req_EnforceAdmins = True,
                       req_RequiredStatusChecks =
                         Some \<lparr>Strict = False, Contexts = [SignOffCheckerContext]\<rparr>\<rparr>;
                    e = Repositories_UpdateBranchProtection gh t1 org (GetName repo)
                          ''master'' request;
                    t2 = t1 @ [UpdateBranchProtection org (GetName repo) ''master'' request e]
                in case e of
                     Some x \<Rightarrow>
                       (Return (Some (Errorf
                          ''Error setting branch protection configuration for %q: %v''
                          [GetFullName repo] x)), t2)
                   | None \<Rightarrow> (Return None, t2))
             else case r of
               Failure e0 rp0 \<Rightarrow> (Panic, t1)
             | Success existing rp0 \<Rightarrow>
                 (let checks =
                        (case RequiredStatusChecks existing of
                           None \<Rightarrow> \<lparr>Strict = False, Contexts = []\<rparr>
                         | Some c \<Rightarrow> c);
                      checks' = checks\<lparr>Contexts := Contexts checks @ [SignOffCheckerContext]\<rparr>;
                      request = \<lparr>req_EnforceAdmins = Enabled (EnforceAdmins existing),
                                 req_RequiredStatusChecks = Some checks'\<rparr>;
                      e = Repositories_UpdateBranchProtection gh t1 org (GetName repo)
                            ''master'' request;
                      t2 = t1 @ [UpdateBranchProtection org (GetName repo) ''master'' request e]
                  in case e of
                       Some x \<Rightarrow>
                         (Return (Some (Errorf
                            ''Error updating branch protection configuration for %q: %v''
                            [GetFullName repo] x)), t2)
                     | None \<Rightarrow> (Return None, t2)))"

subsection \<open>Register\<close>

text \<open>\<open>listOrgRepos\<close>: its loop from the page that \<open>opt\<close> names, and the function.\<close>

partial_function (option) listOrgRepos_from ::
  "Client \<Rightarrow> string \<Rightarrow> ListOptions \<Rightarrow> Repository list \<Rightarrow> trace
    \<Rightarrow> ((error + Repository list) \<times> trace) option" where
  "listOrgRepos_from gh org opt result t =
     (let r = Repositories_ListByOrg gh t org ''all'' opt;
          t1 = t @ [ListByOrg org ''all'' opt r]
      in case r of
           Failure e rp \<Rightarrow>
             Some (Inl (Errorf ''Error getting repositories for organization %q: %v'' [org] e), t1)
         | Success repos rp \<Rightarrow>
             if NextPage rp = 0 then Some (Inr (result @ repos), t1)
             else listOrgRepos_from gh org (opt\<lparr>Page := NextPage rp\<rparr>) (result @ repos) t1)"

declare listOrgRepos_from.simps [code]

definition listOrgRepos ::
  "Client \<Rightarrow> string \<Rightarrow> trace \<Rightarrow> ((error + Repository list) \<times> trace) option" where
  "listOrgRepos gh org t = listOrgRepos_from gh org \<lparr>Page = 0, PerPage = 10\<rparr> [] t"

definition dryRunMsg :: "bool \<Rightarrow> string" where
  "dryRunMsg dryRun = (if dryRun then '' (DRY RUN)'' else [])"

text \<open>
  The body of the inner loop of \<open>Register\<close>, for one repository, in its two halves: the
  webhook and the branch protection. \<open>Return None\<close> says that the loop goes on,
  \<open>Return (Some e)\<close> that \<open>Register\<close> returns \<open>e\<close>.
\<close>

definition Register_hook ::
  "Client \<Rightarrow> bool \<Rightarrow> string \<Rightarrow> Repository \<Rightarrow> string \<Rightarrow> string \<Rightarrow> trace
    \<Rightarrow> (error option \<times> trace) option" where
  "Register_hook gh dryRun org repo webhookURL webhookSecret t =
     (case hasSignOffHook gh org repo webhookURL t of
        None \<Rightarrow> None
      | Some (Inl e, t1) \<Rightarrow> Some (Some e, t1)
      | Some (Inr hasHook, t1) \<Rightarrow>
          if \<not> hasHook then
            (let t2 = t1 @ [Printf ''Installing webhook for %s%s''
                              [GetHTMLURL repo, dryRunMsg dryRun] None]
             in if \<not> dryRun then Some (addSignOffHook gh org repo webhookURL webhookSecret t2)
                else Some (None, t2))
          else Some (None, t1))"

definition Register_protection ::
  "Client \<Rightarrow> bool \<Rightarrow> string \<Rightarrow> Repository \<Rightarrow> trace \<Rightarrow> error option outcome \<times> trace" where
  "Register_protection gh dryRun org repo t =
     (case hasBranchProtection gh org repo t of
        (Inl e, t1) \<Rightarrow> (Return (Some e), t1)
      | (Inr hasProtection, t1) \<Rightarrow>
          if \<not> hasProtection then
            (let t2 = t1 @ [Printf ''Configuring branch protection for %s%s''
                              [GetHTMLURL repo, dryRunMsg dryRun] None]
             in if \<not> dryRun then addBranchProtection gh org repo t2
                else (Return None, t2))
          else (Return None, t1))"

definition Register_repo ::
  "Library \<Rightarrow> Client \<Rightarrow> bool \<Rightarrow> string \<Rightarrow> string \<Rightarrow> string \<Rightarrow> Repository \<Rightarrow> trace
    \<Rightarrow> (error option outcome \<times> trace) option" where
  "Register_repo lib gh dryRun org webhookURL webhookSecret repo t =
     (case getContributing lib gh repo t of
        (Inl e, t1) \<Rightarrow> Some (Return (Some e), t1)
      | (Inr contributing, t1) \<Rightarrow>
          if \<not> isDCO contributing then Some (Return None, t1)
          else case Register_hook gh dryRun org repo webhookURL webhookSecret t1 of
            None \<Rightarrow> None
          | Some (Some e, t2) \<Rightarrow> Some (Return (Some e), t2)
          | Some (None, t2) \<Rightarrow> Some (Register_protection gh dryRun org repo t2))"

text \<open>The inner loop, over the repositories of one organization.\<close>

fun Register_repos ::
  "Library \<Rightarrow> Client \<Rightarrow> bool \<Rightarrow> string \<Rightarrow> string \<Rightarrow> string \<Rightarrow> Repository list \<Rightarrow> trace
    \<Rightarrow> (error option outcome \<times> trace) option" where
  "Register_repos lib gh dryRun org webhookURL webhookSecret [] t = Some (Return None, t)"
| "Register_repos lib gh dryRun org webhookURL webhookSecret (repo # repos) t =
     (case Register_repo lib gh dryRun org webhookURL webhookSecret repo t of
        None \<Rightarrow> None
      | Some (Return None, t1) \<Rightarrow>
          Register_repos lib gh dryRun org webhookURL webhookSecret repos t1
      | Some (Return (Some e), t1) \<Rightarrow> Some (Return (Some e), t1)
      | Some (Panic, t1) \<Rightarrow> Some (Panic, t1))"

text \<open>The outer loop, over the organizations.\<close>

fun Register ::
  "Library \<Rightarrow> Client \<Rightarrow> bool \<Rightarrow> string list \<Rightarrow> string \<Rightarrow> string \<Rightarrow> trace
    \<Rightarrow> (error option outcome \<times> trace) option" where
  "Register lib gh dryRun [] webhookURL webhookSecret t = Some (Return None, t)"
| "Register lib gh dryRun (org # organizations) webhookURL webhookSecret t =
     (let t0 = t @ [Printf ''checking all repos in the %q organization'' [org] None] in
      case listOrgRepos gh org t0 of
        None \<Rightarrow> None
      | Some (Inl e, t1) \<Rightarrow> Some (Return (Some e), t1)
      | Some (Inr repos, t1) \<Rightarrow>
          (case Register_repos lib gh dryRun org webhookURL webhookSecret repos t1 of
             None \<Rightarrow> None
           | Some (Return None, t2) \<Rightarrow>
               Register lib gh dryRun organizations webhookURL webhookSecret t2
           | Some (Return (Some e), t2) \<Rightarrow> Some (Return (Some e), t2)
           | Some (Panic, t2) \<Rightarrow> Some (Panic, t2)))"

section \<open>Reading traces\<close>

text \<open>The statuses created, in order: SHA, state and description.\<close>

fun statuses_created :: "trace \<Rightarrow> (string \<times> string \<times> string) list" where
  "statuses_created [] = []"
| "statuses_created (CreateStatus owner repo sha status e # t) =
     (sha, State status, Description status) # statuses_created t"
| "statuses_created (x # t) = statuses_created t"

text \<open>
  What the third loop of \<open>handlePullRequest\<close> leaves in the trace for one commit whose
  status creation came back with \<open>e\<close>: the call, and a line of the log when it failed.
\<close>

definition status_event ::
  "string \<Rightarrow> string \<Rightarrow> bool \<Rightarrow> RepositoryCommit \<times> error option \<Rightarrow> trace" where
  "status_event owner repo missing ce =
     CreateStatus owner repo (SHA (fst ce)) (status_of owner repo missing) (snd ce) #
       (case snd ce of
          None \<Rightarrow> []
        | Some x \<Rightarrow> [Printf ''Error setting status: %v'' [] (Some x)])"

fun is_ListCommits :: "event \<Rightarrow> bool" where
  "is_ListCommits (ListCommits owner repo number opt r) = True"
| "is_ListCommits x = False"


text \<open>
  The hooks on the pages of a hook listing that the program got to see: those of the
  answers that are no 404.
\<close>

fun hooks_listed :: "trace \<Rightarrow> Hook list" where
  "hooks_listed [] = []"
| "hooks_listed (ListHooks org repo opt (Success hooks rp) # t) =
     (if StatusCode rp = 404 then [] else hooks) @ hooks_listed t"
| "hooks_listed (x # t) = hooks_listed t"


text \<open>
  The ways an error arises while \<open>Register\<close> works on one repository, from the trace
  \<open>t\<close>: the contribution guide cannot be fetched, \<open>hasSignOffHook\<close>,
  \<open>addSignOffHook\<close>, \<open>hasBranchProtection\<close> or \<open>addBranchProtection\<close> returns an
  error. The last argument is the trace when the failing function returns.
\<close>

inductive repo_error ::
  "Library \<Rightarrow> Client \<Rightarrow> bool \<Rightarrow> string \<Rightarrow> string \<Rightarrow> string \<Rightarrow> Repository \<Rightarrow> trace
    \<Rightarrow> error \<Rightarrow> trace \<Rightarrow> bool"
  for lib gh dryRun org webhookURL webhookSecret repo t where
  in_getContributing:
    "getContributing lib gh repo t = (Inl e, t1)
      \<Longrightarrow> repo_error lib gh dryRun org webhookURL webhookSecret repo t e t1"
| in_hasSignOffHook:
    "getContributing lib gh repo t = (Inr doc, t1) \<Longrightarrow> isDCO doc
      \<Longrightarrow> hasSignOffHook gh org repo webhookURL t1 = Some (Inl e, t2)
      \<Longrightarrow> repo_error lib gh dryRun org webhookURL webhookSecret repo t e t2"
| in_addSignOffHook:
    "getContributing lib gh repo t = (Inr doc, t1) \<Longrightarrow> isDCO doc
      \<Longrightarrow> hasSignOffHook gh org repo webhookURL t1 = Some (Inr False, t2)
      \<Longrightarrow> \<not> dryRun
      \<Longrightarrow> addSignOffHook gh org repo webhookURL webhookSecret
            (t2 @ [Printf ''Installing webhook for %s%s'' [GetHTMLURL repo, dryRunMsg dryRun] None])
          = (Some e, t3)
      \<Longrightarrow> repo_error lib gh dryRun org webhookURL webhookSecret repo t e t3"
| in_hasBranchProtection:
    "getContributing lib gh repo t = (Inr doc, t1) \<Longrightarrow> isDCO doc
      \<Longrightarrow> Register_hook gh dryRun org repo webhookURL webhookSecret t1 = Some (None, t2)
      \<Longrightarrow> hasBranchProtection gh org repo t2 = (Inl e, t3)
      \<Longrightarrow> repo_error lib gh dryRun org webhookURL webhookSecret repo t e t3"
| in_addBranchProtection:
    "getContributing lib gh repo t = (Inr doc, t1) \<Longrightarrow> isDCO doc
      \<Longrightarrow> Register_hook gh dryRun org repo webhookURL webhookSecret t1 = Some (None, t2)
      \<Longrightarrow> hasBranchProtection gh org repo t2 = (Inr False, t3)
      \<Longrightarrow> \<not> dryRun
      \<Longrightarrow> addBranchProtection gh org repo
            (t3 @ [Printf ''Configuring branch protection for %s%s''
                     [GetHTMLURL repo, dryRunMsg dryRun] None])
          = (Return (Some e), t4)
      \<Longrightarrow> repo_error lib gh dryRun org webhookURL webhookSecret repo t e t4"

text \<open>
  The ways an error arises while \<open>Register\<close> works on one organization: repository
  discovery fails, or, after the repositories \<open>before\<close> went through, one repository
  runs into an error.
\<close>

inductive org_error ::
  "Library \<Rightarrow> Client \<Rightarrow> bool \<Rightarrow> string \<Rightarrow> string \<Rightarrow> string \<Rightarrow> trace
    \<Rightarrow> error \<Rightarrow> trace \<Rightarrow> bool"
  for lib gh dryRun org webhookURL webhookSecret t where
  in_listOrgRepos:
    "listOrgRepos gh org (t @ [Printf ''checking all repos in the %q organization'' [org] None])
        = Some (Inl e, t1)
      \<Longrightarrow> org_error lib gh dryRun org webhookURL webhookSecret t e t1"
| in_repository:
    "listOrgRepos gh org (t @ [Printf ''checking all repos in the %q organization'' [org] None])
        = Some (Inr (before @ repo # after), t1)
      \<Longrightarrow> Register_repos lib gh dryRun org webhookURL webhookSecret before t1
            = Some (Return None, t2)
      \<Longrightarrow> repo_error lib gh dryRun org webhookURL webhookSecret repo t2 e t3
      \<Longrightarrow> org_error lib gh dryRun org webhookURL webhookSecret t e t3"

section \<open>Sign-off lines\<close>

text \<open>
  What the specification calls a line matching \<open>^signed-off-by:\<close> case-insensitively,
  written without the matcher of the program: a line is a sign-off line when, its letters
  folded, it begins with \<open>signed-off-by:\<close>. That the compiled expression of the
  program accepts exactly these lines is lemma \<open>match_here_testRE\<close> below.

  Folding is simple case folding, as far as it reaches a letter of the pattern: \<open>A\<close>
  to \<open>Z\<close> go to \<open>a\<close> to \<open>z\<close>, and U+017F (LATIN SMALL LETTER LONG S,
  bytes C5 BF in UTF-8) goes to \<open>s\<close>. Every other byte stays.
\<close>

definition to_lower :: "char \<Rightarrow> char" where
  "to_lower c =
     (case map_of (zip ''ABCDEFGHIJKLMNOPQRSTUVWXYZ'' ''abcdefghijklmnopqrstuvwxyz'') c of
        None \<Rightarrow> c
      | Some d \<Rightarrow> d)"

fun fold_case :: "string \<Rightarrow> string" where
  "fold_case [] = []"
| "fold_case [c] = [to_lower c]"
| "fold_case (c # d # cs) =
     (if c = CHR 0xC5 \<and> d = CHR 0xBF then CHR ''s'' # fold_case cs
      else to_lower c # fold_case (d # cs))"

definition signed_off_by_line :: "string \<Rightarrow> bool" where
  "signed_off_by_line l = prefix ''signed-off-by:'' (fold_case l)"

text \<open>
  A position of a compiled pattern stands for the folded character \<open>x\<close> when its
  alternatives are the byte strings that fold to \<open>x\<close>: used to compare the expression
  with the folded pattern, one position at a time.
\<close>

definition accepts :: "string list \<Rightarrow> char \<Rightarrow> bool" where
  "accepts alts x =
     (\<forall>l xs. prefix (x # xs) (fold_case l) =
        list_ex (\<lambda>a. prefix a l \<and> prefix xs (fold_case (drop (length a) l))) alts)"

section \<open>Small remotes\<close>

text \<open>
  Concrete remotes and inputs, on which the theorems below are instantiated. The first
  has nothing on it: empty listings, no contribution guide, no branch protection, and
  every write succeeds.
\<close>

definition ok :: Response where
  "ok = \<lparr>StatusCode = 200, NextPage = 0\<rparr>"

definition not_found :: "'a api_result" where
  "not_found = Failure (Err ''404 Not Found'') (Some \<lparr>StatusCode = 404, NextPage = 0\<rparr>)"

definition quiet_remote :: Client where
  "quiet_remote =
     \<lparr>PullRequests_ListCommits = (\<lambda>t owner repo number opt. Success [] ok),
      Repositories_CreateStatus = (\<lambda>t owner repo sha status. None),
      Repositories_ListHooks = (\<lambda>t org repo opt. Success [] ok),
      Repositories_CreateHook = (\<lambda>t org repo hook. None),
      Repositories_ListByOrg = (\<lambda>t org type opt. Success [] ok),
      Client_Do = (\<lambda>t method url. not_found),
      Repositories_ListRequiredStatusChecksContexts = (\<lambda>t org repo branch. not_found),
      Repositories_GetBranchProtection = (\<lambda>t org repo branch. not_found),
      Repositories_UpdateBranchProtection = (\<lambda>t org repo branch request. None)\<rparr>"

definition signed_commit :: RepositoryCommit where
  "signed_commit =
     \<lparr>SHA = ''a1'', Message = ''fix bug'' @ [CHR 0x0A, CHR 0x0A] @ ''Signed-off-by: A <a@x.com>''\<rparr>"

definition typo_commit :: RepositoryCommit where
  "typo_commit = \<lparr>SHA = ''b2'', Message = ''typo''\<rparr>"

definition two_commits_remote :: Client where
  "two_commits_remote =
     quiet_remote\<lparr>PullRequests_ListCommits :=
       (\<lambda>t owner repo number opt. Success [signed_commit, typo_commit] ok)\<rparr>"

text \<open>
  A second signed commit, with its sign-off in capitals after a CR LF line end, and a
  remote whose pull requests hold the two signed commits.
\<close>

definition upper_case_commit :: RepositoryCommit where
  "upper_case_commit =
     \<lparr>SHA = ''c3'', Message = ''Fix the build'' @ [CHR 0x0D, CHR 0x0A] @ ''SIGNED-OFF-BY: B <b@x.com>''\<rparr>"

definition signed_commits_remote :: Client where
  "signed_commits_remote =
     quiet_remote\<lparr>PullRequests_ListCommits :=
       (\<lambda>t owner repo number opt. Success [signed_commit, upper_case_commit] ok)\<rparr>"

definition failing_status_remote :: Client where
  "failing_status_remote =
     two_commits_remote\<lparr>Repositories_CreateStatus :=
       (\<lambda>t owner repo sha status. if sha = ''a1'' then Some (Err ''502 Bad Gateway'') else None)\<rparr>"

definition pull_request_7 :: PullRequestEvent where
  "pull_request_7 = \<lparr>Owner_Login = ''acme'', Repo_Name = ''widget'', Number = 7\<rparr>"

text \<open>
  A library for the examples: its keyed hash spells \<open>sha1=\<close>, the secret and the
  body; its decoder gives the text back.
\<close>

definition plain_library :: Library where
  "plain_library =
     \<lparr>hmac = (\<lambda>secretKey body. ''sha1='' @ secretKey @ '':'' @ body),
      ParseWebHook = (\<lambda>hooktype payload.
        if hooktype = ''pull_request'' then
          (if payload = ''{}'' then Inl (Err ''unexpected end of JSON input'')
           else Inr (PullRequest pull_request_7))
        else if hooktype = ''ping'' then Inr Ping
        else Inr Other),
      NewRequest = (\<lambda>method url. None),
      DecodeString = (\<lambda>s. Inr s)\<rparr>"

definition forged_request :: Request where
  "forged_request =
     \<lparr>Body = ''{number:7}'', X_Hub_Signature = ''sha1=0000'', X_GitHub_Event = ''pull_request''\<rparr>"

definition truncated_request :: Request where
  "truncated_request =
     \<lparr>Body = ''{}'', X_Hub_Signature = ''sha1=s3cret:{}'', X_GitHub_Event = ''pull_request''\<rparr>"

definition signed_request :: Request where
  "signed_request =
     \<lparr>Body = ''{number:7}'', X_Hub_Signature = ''sha1=s3cret:{number:7}'',
      X_GitHub_Event = ''pull_request''\<rparr>"

text \<open>A repository, two hooks, and remotes that list them.\<close>

definition widget :: Repository where
  "widget =
     \<lparr>GetName = ''widget'', GetFullName = ''acme/widget'', GetDefaultBranch = ''master'',
      GetHTMLURL = ''https://github.com/acme/widget'',
      GetContentsURL = ''https://api.github.com/repos/acme/widget/contents/{+path}''\<rparr>"


definition checker_hook :: Hook where
  "checker_hook =
     \<lparr>Name = ''web'', Events = [''pull_request''], Active = True,
      Config = [(''url'', IString ''https://checker.example.com/webhook''),
                (''secret'', IString ''********''), (''content_type'', IString ''json'')]\<rparr>"



text \<open>The writes of branch protection in a trace: organization, repository, branch, request.\<close>

fun protection_writes :: "trace \<Rightarrow> (string \<times> string \<times> string \<times> ProtectionRequest) list" where
  "protection_writes [] = []"
| "protection_writes (UpdateBranchProtection org repo branch request e # t) =
     (org, repo, branch, request) # protection_writes t"
| "protection_writes (x # t) = protection_writes t"


text \<open>A remote that cannot be reached when the branch protection is read.\<close>

definition unreachable_remote :: Client where
  "unreachable_remote =
     quiet_remote\<lparr>Repositories_GetBranchProtection :=
       (\<lambda>t org repo branch. Failure (Err ''dial tcp: i/o timeout'') None)\<rparr>"

text \<open>
  A repository whose default branch is \<open>main\<close>, and a remote that keeps the branch
  protection of every branch: it starts with a required check \<open>ci/build\<close> on the
  default branches of the two repositories, stores what a successful update writes, and
  answers the reads from what it has stored.
\<close>

definition gadget :: Repository where
  "gadget =
     \<lparr>GetName = ''gadget'', GetFullName = ''acme/gadget'', GetDefaultBranch = ''main'',
      GetHTMLURL = ''https://github.com/acme/gadget'',
      GetContentsURL = ''https://api.github.com/repos/acme/gadget/contents/{+path}''\<rparr>"

definition ci_protection :: ProtectionRequest where
  "ci_protection =
     \<lparr>req_EnforceAdmins = False,
      req_RequiredStatusChecks = Some \<lparr>Strict = True, Contexts = [''ci/build'']\<rparr>\<rparr>"

fun stored_protection ::
  "string \<Rightarrow> string \<Rightarrow> ProtectionRequest option \<Rightarrow> trace \<Rightarrow> ProtectionRequest option" where
  "stored_protection repo branch p [] = p"
| "stored_protection repo branch p (UpdateBranchProtection org r b request None # t) =
     stored_protection repo branch (if r = repo \<and> b = branch then Some request else p) t"
| "stored_protection repo branch p (x # t) = stored_protection repo branch p t"

definition protection_now :: "trace \<Rightarrow> string \<Rightarrow> string \<Rightarrow> ProtectionRequest option" where
  "protection_now t repo branch =
     stored_protection repo branch
       (if (repo, branch) = (''widget'', ''master'') \<or> (repo, branch) = (''gadget'', ''main'')
        then Some ci_protection else None) t"

definition protected_remote :: Client where
  "protected_remote =
     quiet_remote
      \<lparr>Repositories_ListRequiredStatusChecksContexts :=
         (\<lambda>t org repo branch.
            case protection_now t repo branch of
              None \<Rightarrow> not_found
            | Some p \<Rightarrow>
                Success (case req_RequiredStatusChecks p of None \<Rightarrow> [] | Some c \<Rightarrow> Contexts c) ok),
       Repositories_GetBranchProtection :=
         (\<lambda>t org repo branch.
            case protection_now t repo branch of
              None \<Rightarrow> not_found
            | Some p \<Rightarrow>
                Success \<lparr>RequiredStatusChecks = req_RequiredStatusChecks p,
                         EnforceAdmins = \<lparr>Enabled = req_EnforceAdmins p\<rparr>\<rparr> ok)\<rparr>"

text \<open>
  A remote with one repository in every organization; its contribution guide declares
  the DCO, and it has neither hooks nor branch protection.
\<close>

definition dco_remote :: Client where
  "dco_remote =
     quiet_remote
      \<lparr>Repositories_ListByOrg := (\<lambda>t org type opt. Success [widget] ok),
       Client_Do := (\<lambda>t method url.
         Success ''Sign your work: Developer Certificate of Origin'' ok)\<rparr>"

text \<open>
  The same repository, configured in full, on a remote whose hook listing is down for one
  organization.
\<close>

definition hooks_down_remote :: Client where
  "hooks_down_remote =
     dco_remote
      \<lparr>Repositories_ListHooks :=
         (\<lambda>t org repo opt.
            if org = ''globex''
            then Failure (Err ''500 Internal Server Error'')
                   (Some \<lparr>StatusCode = 500, NextPage = 0\<rparr>)
            else Success [checker_hook] ok),
       Repositories_ListRequiredStatusChecksContexts :=
         (\<lambda>t org repo branch. Success [SignOffCheckerContext] ok)\<rparr>"

section \<open>Properties of pkg/webhook\<close>

subsection \<open>The expression looks at every line\<close>

lemma split_lines_eq: "split_lines s = map (takeWhile (\<lambda>c. c \<noteq> CHR 0x0A)) (line_starts s)"
  unfolding line_starts_def
  by (induction s) (auto split: list.splits)

lemma prefix_takeWhile:
  assumes "\<forall>c \<in> set a. P c"
  shows "prefix a (takeWhile P s) = prefix a s"
  using assms
proof (induction a arbitrary: s)
  case Nil
  then show ?case by simp
next
  case (Cons x a)
  then show ?case by (cases s) auto
qed

lemma drop_takeWhile_prefix:
  assumes "\<forall>c \<in> set a. P c" and "prefix a s"
  shows "drop (length a) (takeWhile P s) = takeWhile P (drop (length a) s)"
  using assms
proof (induction a arbitrary: s)
  case Nil
  then show ?case by simp
next
  case (Cons x a)
  then show ?case by (cases s) auto
qed

lemma match_here_takeWhile:
  assumes "\<forall>alts \<in> set prog. \<forall>a \<in> set alts. \<forall>c \<in> set a. P c"
  shows "match_here prog (takeWhile P s) = match_here prog s"
  using assms
proof (induction prog arbitrary: s)
  case Nil
  then show ?case by simp
next
  case (Cons alts rest)
  have r: "\<And>u. match_here rest (takeWhile P u) = match_here rest u"
    using Cons by simp
  have step: "(prefix a (takeWhile P s) \<and> match_here rest (drop (length a) (takeWhile P s)))
      = (prefix a s \<and> match_here rest (drop (length a) s))" if a: "a \<in> set alts" for a
  proof -
    have p: "\<forall>c \<in> set a. P c" using Cons.prems a by simp
    show ?thesis
    proof (cases "prefix a s")
      case True
      then show ?thesis
        by (simp only: prefix_takeWhile [OF p] drop_takeWhile_prefix [OF p True] r)
    next
      case False
      then show ?thesis by (simp only: prefix_takeWhile [OF p] simp_thms)
    qed
  qed
  show ?case
    unfolding match_here.simps list_ex_iff using step by blast
qed

lemma testRE_no_newline: "\<forall>alts \<in> set testRE. \<forall>a \<in> set alts. \<forall>c \<in> set a. c \<noteq> CHR 0x0A"
  by (simp add: testRE_def)

lemma testRE_lines:
  "testRE_MatchString s = list_ex (match_here testRE) (split_lines s)"
  unfolding testRE_MatchString_def split_lines_eq
  using match_here_takeWhile [OF testRE_no_newline]
  by (simp add: list_ex_iff)

lemma signMissing_iff:
  "signMissing cs = list_ex (\<lambda>c. \<not> list_ex (match_here testRE) (split_lines (Message c))) cs"
  by (induction cs) (auto simp: testRE_lines)

subsection \<open>The expression accepts the sign-off lines\<close>

lemma to_lower_letters:
  "to_lower c = CHR ''s'' \<longleftrightarrow> c = CHR ''s'' \<or> c = CHR ''S''"
  "to_lower c = CHR ''i'' \<longleftrightarrow> c = CHR ''i'' \<or> c = CHR ''I''"
  "to_lower c = CHR ''g'' \<longleftrightarrow> c = CHR ''g'' \<or> c = CHR ''G''"
  "to_lower c = CHR ''n'' \<longleftrightarrow> c = CHR ''n'' \<or> c = CHR ''N''"
  "to_lower c = CHR ''e'' \<longleftrightarrow> c = CHR ''e'' \<or> c = CHR ''E''"
  "to_lower c = CHR ''d'' \<longleftrightarrow> c = CHR ''d'' \<or> c = CHR ''D''"
  "to_lower c = CHR ''o'' \<longleftrightarrow> c = CHR ''o'' \<or> c = CHR ''O''"
  "to_lower c = CHR ''f'' \<longleftrightarrow> c = CHR ''f'' \<or> c = CHR ''F''"
  "to_lower c = CHR ''b'' \<longleftrightarrow> c = CHR ''b'' \<or> c = CHR ''B''"
  "to_lower c = CHR ''y'' \<longleftrightarrow> c = CHR ''y'' \<or> c = CHR ''Y''"
  "to_lower c = CHR ''-'' \<longleftrightarrow> c = CHR ''-''"
  "to_lower c = CHR '':'' \<longleftrightarrow> c = CHR '':''"
  by (auto simp: to_lower_def split: if_splits)


lemma fold_case_Cons:
  "\<not> (c = CHR 0xC5 \<and> prefix [CHR 0xBF] l) \<Longrightarrow> fold_case (c # l) = to_lower c # fold_case l"
  by (cases l) auto

lemma fold_case_long_s:
  "fold_case (CHR 0xC5 # CHR 0xBF # l) = CHR ''s'' # fold_case l"
  by simp

lemma accepts_letter:
  assumes pre: "\<And>c. (to_lower c = x) = (c \<in> set cs)"
    and "CHR 0xC5 \<notin> set cs" and "x \<noteq> CHR ''s''"
  shows "accepts (map (\<lambda>c. [c]) cs) x"
  unfolding accepts_def
proof (intro allI)
  fix l xs
  let ?R = "list_ex (\<lambda>a. prefix a l \<and> prefix xs (fold_case (drop (length a) l)))
          (map (\<lambda>c. [c]) cs)"
  show "prefix (x # xs) (fold_case l) = ?R"
  proof (cases l)
    case Nil
    then show ?thesis by (auto simp: list_ex_iff)
  next
    case (Cons c l')
    have R: "?R = (c \<in> set cs \<and> prefix xs (fold_case l'))"
      using Cons by (auto simp: list_ex_iff)
    show ?thesis
    proof (cases "c = CHR 0xC5 \<and> prefix [CHR 0xBF] l'")
      case True
      then obtain l'' where "l' = CHR 0xBF # l''" by (auto simp: prefix_def)
      with True Cons assms(3) have "\<not> prefix (x # xs) (fold_case l)" by auto
      moreover from True assms(2) have "c \<notin> set cs" by auto
      ultimately show ?thesis unfolding R by simp
    next
      case False
      have "prefix (x # xs) (fold_case l) = (to_lower c = x \<and> prefix xs (fold_case l'))"
        using fold_case_Cons [OF False] Cons by auto
      then show ?thesis unfolding R pre .
    qed
  qed
qed

lemma accepts_s: "accepts [''s'', ''S'', [CHR 0xC5, CHR 0xBF]] (CHR ''s'')"
  unfolding accepts_def
proof (intro allI)
  fix l xs
  let ?R = "list_ex (\<lambda>a. prefix a l \<and> prefix xs (fold_case (drop (length a) l)))
          [''s'', ''S'', [CHR 0xC5, CHR 0xBF]]"
  show "prefix (CHR ''s'' # xs) (fold_case l) = ?R"
  proof (cases l)
    case Nil
    then show ?thesis by simp
  next
    case (Cons c l')
    show ?thesis
    proof (cases "c = CHR 0xC5 \<and> prefix [CHR 0xBF] l'")
      case True
      then obtain l'' where "l' = CHR 0xBF # l''" by (auto simp: prefix_def)
      with True Cons show ?thesis by simp
    next
      case False
      have L: "prefix (CHR ''s'' # xs) (fold_case l) =
          (to_lower c = CHR ''s'' \<and> prefix xs (fold_case l'))"
        using fold_case_Cons [OF False] Cons by auto
      have R: "?R = ((c = CHR ''s'' \<or> c = CHR ''S'') \<and> prefix xs (fold_case l'))"
        using Cons False by auto
      show ?thesis unfolding L R to_lower_letters ..
    qed
  qed
qed

lemma match_here_fold_case:
  "list_all2 accepts prog pat \<Longrightarrow> match_here prog l = prefix pat (fold_case l)"
proof (induction prog pat arbitrary: l rule: list_all2_induct)
  case Nil
  then show ?case by simp
next
  case (Cons alts prog x pat)
  from Cons.hyps(1) have
    "prefix (x # pat) (fold_case l) =
       list_ex (\<lambda>a. prefix a l \<and> prefix pat (fold_case (drop (length a) l))) alts"
    unfolding accepts_def by blast
  then show ?case by (simp add: Cons.IH)
qed

lemma testRE_accepts: "list_all2 accepts testRE ''signed-off-by:''"
proof -
  have l: "\<And>x cs. (\<And>c. (to_lower c = x) = (c \<in> set cs)) \<Longrightarrow> CHR 0xC5 \<notin> set cs
      \<Longrightarrow> x \<noteq> CHR ''s'' \<Longrightarrow> accepts (map (\<lambda>c. [c]) cs) x"
    by (rule accepts_letter)
  have "accepts [''i'', ''I''] (CHR ''i'')" using l [of "CHR ''i''" "''iI''"] by (simp add: to_lower_letters)
  moreover have "accepts [''g'', ''G''] (CHR ''g'')" using l [of "CHR ''g''" "''gG''"] by (simp add: to_lower_letters)
  moreover have "accepts [''n'', ''N''] (CHR ''n'')" using l [of "CHR ''n''" "''nN''"] by (simp add: to_lower_letters)
  moreover have "accepts [''e'', ''E''] (CHR ''e'')" using l [of "CHR ''e''" "''eE''"] by (simp add: to_lower_letters)
  moreover have "accepts [''d'', ''D''] (CHR ''d'')" using l [of "CHR ''d''" "''dD''"] by (simp add: to_lower_letters)
  moreover have "accepts [''o'', ''O''] (CHR ''o'')" using l [of "CHR ''o''" "''oO''"] by (simp add: to_lower_letters)
  moreover have "accepts [''f'', ''F''] (CHR ''f'')" using l [of "CHR ''f''" "''fF''"] by (simp add: to_lower_letters)
  moreover have "accepts [''b'', ''B''] (CHR ''b'')" using l [of "CHR ''b''" "''bB''"] by (simp add: to_lower_letters)
  moreover have "accepts [''y'', ''Y''] (CHR ''y'')" using l [of "CHR ''y''" "''yY''"] by (simp add: to_lower_letters)
  moreover have "accepts [''-''] (CHR ''-'')" using l [of "CHR ''-''" "''-''"] by (simp add: to_lower_letters)
  moreover have "accepts ['':''] (CHR '':'')" using l [of "CHR '':''" "'':''"] by (simp add: to_lower_letters)
  ultimately show ?thesis using accepts_s by (simp add: testRE_def)
qed

lemma match_here_testRE: "match_here testRE l = signed_off_by_line l"
  unfolding signed_off_by_line_def by (rule match_here_fold_case [OF testRE_accepts])

lemma signMissing_lines:
  "signMissing cs = list_ex (\<lambda>c. \<not> list_ex signed_off_by_line (split_lines (Message c))) cs"
proof -
  have "match_here testRE = signed_off_by_line" by (rule ext) (rule match_here_testRE)
  then show ?thesis by (simp add: signMissing_iff)
qed

lemma signed_off_by_line_examples:
  "signed_off_by_line ''Signed-off-by: A <a@x.com>''"
  "signed_off_by_line ''SIGNED-OFF-BY:''"
  "signed_off_by_line ([CHR 0xC5, CHR 0xBF] @ ''igned-off-by: A'')"
  "\<not> signed_off_by_line '' Signed-off-by: A <a@x.com>''"
  "\<not> signed_off_by_line ''Signed-off-by A <a@x.com>''"
  "\<not> signed_off_by_line ''Signed off by: A <a@x.com>''"
  "\<not> signed_off_by_line []"
  by code_simp+

subsection \<open>The loops of handlePullRequest\<close>

text \<open>
  The third loop appends, for each commit in order, the events of \<open>status_event\<close>; the
  first loop, when it ends with the commits, has appended listing calls only.
\<close>

lemma createStatuses_trace:
  "\<exists>es. length es = length cs \<and>
     createStatuses gh owner repo missing cs t =
       t @ concat (map (status_event owner repo missing) (zip cs es))"
proof (induction cs arbitrary: t)
  case Nil
  then show ?case by simp
next
  case (Cons c cs)
  define e where "e = Repositories_CreateStatus gh t owner repo (SHA c) (status_of owner repo missing)"
  define t2 where "t2 = t @ status_event owner repo missing (c, e)"
  have step: "createStatuses gh owner repo missing (c # cs) t = createStatuses gh owner repo missing cs t2"
    by (simp add: t2_def e_def status_event_def Let_def split: option.splits)
  from Cons.IH [of t2] obtain es where es: "length es = length cs"
    "createStatuses gh owner repo missing cs t2 = t2 @ concat (map (status_event owner repo missing) (zip cs es))"
    by blast
  have "length (e # es) = length (c # cs)" using es by simp
  moreover have "createStatuses gh owner repo missing (c # cs) t =
     t @ concat (map (status_event owner repo missing) (zip (c # cs) (e # es)))"
    using step es by (simp add: t2_def)
  ultimately show ?case by blast
qed

lemma statuses_created_append:
  "statuses_created (t @ u) = statuses_created t @ statuses_created u"
  by (induction t rule: statuses_created.induct) simp_all

lemma statuses_created_status_events:
  "length es = length cs \<Longrightarrow>
   statuses_created (concat (map (status_event owner repo missing) (zip cs es))) =
     map (\<lambda>c. (SHA c, State (status_of owner repo missing), Description (status_of owner repo missing))) cs"
proof (induction cs arbitrary: es)
  case Nil
  then show ?case by simp
next
  case (Cons c cs)
  then obtain e es' where es: "es = e # es'" by (cases es) auto
  with Cons show ?case
    by (simp add: statuses_created_append status_event_def split: option.splits)
qed

lemma listAllCommits_reads_aux:
  assumes "listAllCommits gh owner repo number opt acc t = Some y"
  shows "fst y \<noteq> None \<longrightarrow> (\<exists>u. snd y = t @ u \<and> list_all is_ListCommits u)"
proof (rule listAllCommits.raw_induct
    [where P = "\<lambda>gh owner repo number opt acc t y.
       fst y \<noteq> None \<longrightarrow> (\<exists>u. snd y = t @ u \<and> list_all is_ListCommits u)", OF _ assms])
  fix f :: "Client \<Rightarrow> string \<Rightarrow> string \<Rightarrow> int \<Rightarrow> ListOptions \<Rightarrow> RepositoryCommit list \<Rightarrow> trace
      \<Rightarrow> (RepositoryCommit list option \<times> trace) option"
  fix gh owner repo number opt acc t y
  assume IH: "\<And>gh owner repo number opt acc t y. f gh owner repo number opt acc t = Some y \<Longrightarrow>
     fst y \<noteq> None \<longrightarrow> (\<exists>u. snd y = t @ u \<and> list_all is_ListCommits u)"
  assume body: "(let r = PullRequests_ListCommits gh t owner repo number opt;
          t1 = t @ [ListCommits owner repo number opt r]
      in case r of
           Success commits rp \<Rightarrow>
             if NextPage rp = 0 then Some (Some (acc @ commits), t1)
             else f gh owner repo number (opt\<lparr>Page := NextPage rp\<rparr>)
                    (acc @ commits) t1
         | Failure e rp \<Rightarrow>
             Some (None, t1 @ [Printf ''Error getting commits for PR: %v'' [] (Some e)])) = Some y"
  show "fst y \<noteq> None \<longrightarrow> (\<exists>u. snd y = t @ u \<and> list_all is_ListCommits u)"
  proof (cases "PullRequests_ListCommits gh t owner repo number opt")
    case (Failure e rp)
    with body show ?thesis by (auto simp: Let_def)
  next
    case (Success commits rp)
    show ?thesis
    proof (cases "NextPage rp = 0")
      case True
      with body Success show ?thesis by (auto simp: Let_def)
    next
      case False
      with body Success have
        "f gh owner repo number (opt\<lparr>Page := NextPage rp\<rparr>) (acc @ commits)
           (t @ [ListCommits owner repo number opt (Success commits rp)]) = Some y"
        by (simp add: Let_def)
      from IH [OF this] show ?thesis by auto
    qed
  qed
qed

lemma listAllCommits_reads:
  assumes "listAllCommits gh owner repo number opt acc t = Some (Some allCommits, t1)"
  shows "\<exists>u. t1 = t @ u \<and> list_all is_ListCommits u"
  using listAllCommits_reads_aux [OF assms] by simp

subsection \<open>A pull request without commits\<close>

text \<open>
  C9: when the commit listing of a pull request comes back empty, no commit is found
  unsigned (the verdict is success), and the handler returns with the trace of the
  listing, which holds nothing but the listing calls: no status is created, nothing is
  logged.
\<close>

theorem handlePullRequest_no_commits:
  assumes "listAllCommits (GitHub h) (Owner_Login ev) (Repo_Name ev) (Number ev)
             \<lparr>Page = 0, PerPage = 10\<rparr> [] t = Some (Some [], t1)"
  shows "handlePullRequest h ev t = Some t1 \<and> \<not> signMissing [] \<and>
         (\<exists>u. t1 = t @ u \<and> list_all is_ListCommits u)"
  using assms listAllCommits_reads [OF assms]
  by (simp add: handlePullRequest_def)

theorem handlePullRequest_no_commits_witness:
  "listAllCommits (GitHub \<lparr>Secret = ''s3cret'', GitHub = quiet_remote\<rparr>) (Owner_Login pull_request_7)
       (Repo_Name pull_request_7) (Number pull_request_7) \<lparr>Page = 0, PerPage = 10\<rparr> [] []
     = Some (Some [], [ListCommits ''acme'' ''widget'' 7 \<lparr>Page = 0, PerPage = 10\<rparr> (Success [] ok)])
   \<and> handlePullRequest \<lparr>Secret = ''s3cret'', GitHub = quiet_remote\<rparr> pull_request_7 []
     = Some [ListCommits ''acme'' ''widget'' 7 \<lparr>Page = 0, PerPage = 10\<rparr> (Success [] ok)]"
proof -
  have run: "listAllCommits (GitHub \<lparr>Secret = ''s3cret'', GitHub = quiet_remote\<rparr>)
       (Owner_Login pull_request_7) (Repo_Name pull_request_7) (Number pull_request_7)
       \<lparr>Page = 0, PerPage = 10\<rparr> [] []
     = Some (Some [], [ListCommits ''acme'' ''widget'' 7 \<lparr>Page = 0, PerPage = 10\<rparr> (Success [] ok)])"
    by (simp add: listAllCommits.simps quiet_remote_def pull_request_7_def ok_def)
  from handlePullRequest_no_commits [OF run] run show ?thesis by simp
qed


subsection \<open>The verdict\<close>

lemma signMissing_set: "signMissing cs = (\<exists>c \<in> set cs. \<not> testRE_MatchString (Message c))"
  by (induction cs) auto

lemma two_commits_listing:
  "listAllCommits two_commits_remote ''acme'' ''widget'' 7 \<lparr>Page = 0, PerPage = 10\<rparr> [] []
     = Some (Some [signed_commit, typo_commit],
         [ListCommits ''acme'' ''widget'' 7 \<lparr>Page = 0, PerPage = 10\<rparr>
            (Success [signed_commit, typo_commit] ok)])"
  by (simp add: listAllCommits.simps two_commits_remote_def quiet_remote_def ok_def)

lemma signed_commit_lines:
  "list_ex (match_here testRE) (split_lines (Message signed_commit))"
  by code_simp

lemma typo_commit_lines:
  "\<not> list_ex (match_here testRE) (split_lines (Message typo_commit))"
  by code_simp

lemma commit_lines:
  "list_ex signed_off_by_line (split_lines (Message signed_commit))"
  "\<not> list_ex signed_off_by_line (split_lines (Message typo_commit))"
  "list_ex signed_off_by_line (split_lines (Message upper_case_commit))"
  by code_simp+

lemma commit_matches:
  "testRE_MatchString (Message signed_commit)"
  "\<not> testRE_MatchString (Message typo_commit)"
  "testRE_MatchString (Message upper_case_commit)"
  by code_simp+

lemma commit_shas:
  "SHA signed_commit = ''a1''" "SHA typo_commit = ''b2''" "SHA upper_case_commit = ''c3''"
  by (simp_all add: signed_commit_def typo_commit_def upper_case_commit_def)

text \<open>
  C1: the verdict is one for the whole pull request. Once the commits are fetched, the
  handler creates one status per commit, in order; when some commit message has no
  sign-off line (every line of the message counts, and a sign-off line is one that begins
  with \<open>signed-off-by:\<close>, letters in either case), each of them has state
  \<open>failure\<close> and description \<open>A commit in PR is missing Signed-off-by\<close>; when
  every message has such a line, each of them has state \<open>success\<close>.
\<close>

theorem handlePullRequest_verdict:
  assumes "listAllCommits (GitHub h) (Owner_Login ev) (Repo_Name ev) (Number ev)
             \<lparr>Page = 0, PerPage = 10\<rparr> [] t = Some (Some allCommits, t1)"
  shows "\<exists>u. handlePullRequest h ev t = Some (t1 @ u) \<and>
           statuses_created u =
             map (\<lambda>c. (SHA c,
                    if list_ex (\<lambda>c. \<not> list_ex signed_off_by_line (split_lines (Message c)))
                         allCommits
                    then (''failure'', ''A commit in PR is missing Signed-off-by'')
                    else (''success'', ''Commit has Signed-off-by'')))
               allCommits"
proof -
  define missing where "missing = signMissing allCommits"
  obtain es where es: "length es = length allCommits"
    "createStatuses (GitHub h) (Owner_Login ev) (Repo_Name ev) missing allCommits t1 =
       t1 @ concat (map (status_event (Owner_Login ev) (Repo_Name ev) missing) (zip allCommits es))"
    using createStatuses_trace by blast
  let ?u = "concat (map (status_event (Owner_Login ev) (Repo_Name ev) missing) (zip allCommits es))"
  have run: "handlePullRequest h ev t = Some (t1 @ ?u)"
    using assms es(2) by (simp add: handlePullRequest_def missing_def)
  have "statuses_created ?u =
      map (\<lambda>c. (SHA c, State (status_of (Owner_Login ev) (Repo_Name ev) missing),
                 Description (status_of (Owner_Login ev) (Repo_Name ev) missing))) allCommits"
    using statuses_created_status_events [OF es(1)] .
  also have "\<dots> = map (\<lambda>c. (SHA c,
                    if list_ex (\<lambda>c. \<not> list_ex signed_off_by_line (split_lines (Message c)))
                         allCommits
                    then (''failure'', ''A commit in PR is missing Signed-off-by'')
                    else (''success'', ''Commit has Signed-off-by''))) allCommits"
    by (simp add: status_of_def missing_def signMissing_lines)
  finally show ?thesis using run by blast
qed

theorem handlePullRequest_verdict_witness:
  "handlePullRequest \<lparr>Secret = ''s3cret'', GitHub = two_commits_remote\<rparr> pull_request_7 []
     = Some [ListCommits ''acme'' ''widget'' 7 \<lparr>Page = 0, PerPage = 10\<rparr>
               (Success [signed_commit, typo_commit] ok),
             CreateStatus ''acme'' ''widget'' ''a1'' (status_of ''acme'' ''widget'' True) None,
             CreateStatus ''acme'' ''widget'' ''b2'' (status_of ''acme'' ''widget'' True) None] \<and>
   statuses_created
       [CreateStatus ''acme'' ''widget'' ''a1'' (status_of ''acme'' ''widget'' True) None,
        CreateStatus ''acme'' ''widget'' ''b2'' (status_of ''acme'' ''widget'' True) None]
     = [(''a1'', ''failure'', ''A commit in PR is missing Signed-off-by''),
        (''b2'', ''failure'', ''A commit in PR is missing Signed-off-by'')] \<and>
   handlePullRequest \<lparr>Secret = ''s3cret'', GitHub = signed_commits_remote\<rparr> pull_request_7 []
     = Some [ListCommits ''acme'' ''widget'' 7 \<lparr>Page = 0, PerPage = 10\<rparr>
               (Success [signed_commit, upper_case_commit] ok),
             CreateStatus ''acme'' ''widget'' ''a1'' (status_of ''acme'' ''widget'' False) None,
             CreateStatus ''acme'' ''widget'' ''c3'' (status_of ''acme'' ''widget'' False) None] \<and>
   statuses_created
       [CreateStatus ''acme'' ''widget'' ''a1'' (status_of ''acme'' ''widget'' False) None,
        CreateStatus ''acme'' ''widget'' ''c3'' (status_of ''acme'' ''widget'' False) None]
     = [(''a1'', ''success'', ''Commit has Signed-off-by''),
        (''c3'', ''success'', ''Commit has Signed-off-by'')]"
proof -
  let ?h1 = "\<lparr>Secret = ''s3cret'', GitHub = two_commits_remote\<rparr>"
  let ?h2 = "\<lparr>Secret = ''s3cret'', GitHub = signed_commits_remote\<rparr>"
  let ?l1 = "[ListCommits ''acme'' ''widget'' 7 \<lparr>Page = 0, PerPage = 10\<rparr>
               (Success [signed_commit, typo_commit] ok)]"
  let ?l2 = "[ListCommits ''acme'' ''widget'' 7 \<lparr>Page = 0, PerPage = 10\<rparr>
               (Success [signed_commit, upper_case_commit] ok)]"
  let ?u1 = "[CreateStatus ''acme'' ''widget'' ''a1'' (status_of ''acme'' ''widget'' True) None,
             CreateStatus ''acme'' ''widget'' ''b2'' (status_of ''acme'' ''widget'' True) None]"
  let ?u2 = "[CreateStatus ''acme'' ''widget'' ''a1'' (status_of ''acme'' ''widget'' False) None,
             CreateStatus ''acme'' ''widget'' ''c3'' (status_of ''acme'' ''widget'' False) None]"
  have run1: "listAllCommits (GitHub ?h1) (Owner_Login pull_request_7) (Repo_Name pull_request_7)
       (Number pull_request_7) \<lparr>Page = 0, PerPage = 10\<rparr> [] []
     = Some (Some [signed_commit, typo_commit], ?l1)"
    using two_commits_listing by (simp add: pull_request_7_def)
  have run2: "listAllCommits (GitHub ?h2) (Owner_Login pull_request_7) (Repo_Name pull_request_7)
       (Number pull_request_7) \<lparr>Page = 0, PerPage = 10\<rparr> [] []
     = Some (Some [signed_commit, upper_case_commit], ?l2)"
    by (simp add: listAllCommits.simps signed_commits_remote_def quiet_remote_def ok_def
        pull_request_7_def)
  have d1: "handlePullRequest ?h1 pull_request_7 [] = Some (?l1 @ ?u1)"
    using run1
    by (simp add: handlePullRequest_def commit_matches commit_shas Let_def two_commits_remote_def
        quiet_remote_def pull_request_7_def)
  have d2: "handlePullRequest ?h2 pull_request_7 [] = Some (?l2 @ ?u2)"
    using run2
    by (simp add: handlePullRequest_def commit_matches commit_shas Let_def
        signed_commits_remote_def quiet_remote_def pull_request_7_def)
  from handlePullRequest_verdict [OF run1] d1
  have s1: "statuses_created ?u1 =
      [(''a1'', ''failure'', ''A commit in PR is missing Signed-off-by''),
       (''b2'', ''failure'', ''A commit in PR is missing Signed-off-by'')]"
    by (auto simp: commit_lines commit_shas)
  from handlePullRequest_verdict [OF run2] d2
  have s2: "statuses_created ?u2 =
      [(''a1'', ''success'', ''Commit has Signed-off-by''),
       (''c3'', ''success'', ''Commit has Signed-off-by'')]"
    by (auto simp: commit_lines commit_shas)
  from d1 d2 s1 s2 show ?thesis by simp
qed

text \<open>
  C8: the verdict does not depend on the order of the commits: two sequences with the
  same commits, each as often, get the same status.
\<close>

theorem verdict_permutation:
  assumes "mset commits = mset commits'"
  shows "status_of owner repo (signMissing commits) = status_of owner repo (signMissing commits')"
proof -
  from assms have "set commits = set commits'" by (rule mset_eq_setD)
  then have "signMissing commits = signMissing commits'" by (simp add: signMissing_set)
  then show ?thesis by simp
qed

theorem verdict_permutation_witness:
  "mset [signed_commit, typo_commit] = mset [typo_commit, signed_commit] \<and>
   status_of ''acme'' ''widget'' (signMissing [signed_commit, typo_commit]) =
   status_of ''acme'' ''widget'' (signMissing [typo_commit, signed_commit]) \<and>
   State (status_of ''acme'' ''widget'' (signMissing [typo_commit, signed_commit])) = ''failure''"
proof -
  have p: "mset [signed_commit, typo_commit] = mset [typo_commit, signed_commit]"
    by (simp add: add.commute)
  have m: "\<not> testRE_MatchString (Message typo_commit)"
    by code_simp
  from verdict_permutation [OF p, of "''acme''" "''widget''"] p m show ?thesis
    by (simp add: status_of_def)
qed

subsection \<open>Publishing\<close>

text \<open>
  C4: whatever the status creations answer, the handler attempts exactly one per commit,
  in the order of the commits; a creation that fails is followed by a line of the log and
  then by the creation for the next commit.
\<close>

theorem handlePullRequest_every_commit:
  assumes "listAllCommits (GitHub h) (Owner_Login ev) (Repo_Name ev) (Number ev)
             \<lparr>Page = 0, PerPage = 10\<rparr> [] t = Some (Some allCommits, t1)"
  shows "\<exists>es. length es = length allCommits \<and>
           handlePullRequest h ev t =
             Some (t1 @ concat (map (status_event (Owner_Login ev) (Repo_Name ev)
                                      (signMissing allCommits)) (zip allCommits es)))"
proof -
  obtain es where es: "length es = length allCommits"
    "createStatuses (GitHub h) (Owner_Login ev) (Repo_Name ev) (signMissing allCommits) allCommits t1 =
       t1 @ concat (map (status_event (Owner_Login ev) (Repo_Name ev) (signMissing allCommits))
                      (zip allCommits es))"
    using createStatuses_trace by blast
  have "handlePullRequest h ev t =
      Some (t1 @ concat (map (status_event (Owner_Login ev) (Repo_Name ev)
                                      (signMissing allCommits)) (zip allCommits es)))"
    using assms es(2) by (simp add: handlePullRequest_def)
  with es(1) show ?thesis by blast
qed

theorem handlePullRequest_every_commit_witness:
  "handlePullRequest \<lparr>Secret = ''s3cret'', GitHub = failing_status_remote\<rparr> pull_request_7 []
     = Some [ListCommits ''acme'' ''widget'' 7 \<lparr>Page = 0, PerPage = 10\<rparr>
               (Success [signed_commit, typo_commit] ok),
             CreateStatus ''acme'' ''widget'' ''a1'' (status_of ''acme'' ''widget'' True)
               (Some (Err ''502 Bad Gateway'')),
             Printf ''Error setting status: %v'' [] (Some (Err ''502 Bad Gateway'')),
             CreateStatus ''acme'' ''widget'' ''b2'' (status_of ''acme'' ''widget'' True) None]
   \<and> (\<exists>es. length es = length [signed_commit, typo_commit] \<and>
         handlePullRequest \<lparr>Secret = ''s3cret'', GitHub = failing_status_remote\<rparr> pull_request_7 []
           = Some ([ListCommits ''acme'' ''widget'' 7 \<lparr>Page = 0, PerPage = 10\<rparr>
                      (Success [signed_commit, typo_commit] ok)] @
                   concat (map (status_event ''acme'' ''widget'' True)
                             (zip [signed_commit, typo_commit] es))))"
proof -
  have run: "listAllCommits (GitHub \<lparr>Secret = ''s3cret'', GitHub = failing_status_remote\<rparr>)
       (Owner_Login pull_request_7) (Repo_Name pull_request_7) (Number pull_request_7)
       \<lparr>Page = 0, PerPage = 10\<rparr> [] []
     = Some (Some [signed_commit, typo_commit],
         [ListCommits ''acme'' ''widget'' 7 \<lparr>Page = 0, PerPage = 10\<rparr>
            (Success [signed_commit, typo_commit] ok)])"
    by (simp add: listAllCommits.simps failing_status_remote_def two_commits_remote_def
        quiet_remote_def ok_def pull_request_7_def)
  have m: "testRE_MatchString (Message signed_commit)" "\<not> testRE_MatchString (Message typo_commit)"
    by (simp_all add: testRE_lines typo_commit_lines signed_commit_lines)
  then have sm: "signMissing [signed_commit, typo_commit] = True"
    by simp
  have sha: "SHA signed_commit = ''a1''" "SHA typo_commit = ''b2''"
    by (simp_all add: signed_commit_def typo_commit_def)
  have direct: "handlePullRequest \<lparr>Secret = ''s3cret'', GitHub = failing_status_remote\<rparr> pull_request_7 []
     = Some [ListCommits ''acme'' ''widget'' 7 \<lparr>Page = 0, PerPage = 10\<rparr>
               (Success [signed_commit, typo_commit] ok),
             CreateStatus ''acme'' ''widget'' ''a1'' (status_of ''acme'' ''widget'' True)
               (Some (Err ''502 Bad Gateway'')),
             Printf ''Error setting status: %v'' [] (Some (Err ''502 Bad Gateway'')),
             CreateStatus ''acme'' ''widget'' ''b2'' (status_of ''acme'' ''widget'' True) None]"
    using run m
    by (simp add: handlePullRequest_def sha Let_def failing_status_remote_def pull_request_7_def)
  from handlePullRequest_every_commit [OF run] direct show ?thesis
    unfolding sm by (simp add: pull_request_7_def)
qed

subsection \<open>The endpoint\<close>

text \<open>
  C7: a request whose signature header is not the keyed hash of its body under the
  handler's secret is answered by \<open>http.Error\<close> with status 400 and nothing else
  happens: no call of the remote, no line of the log. A request with the right signature
  goes on to decoding; when that fails the answer is again a 400 and nothing else, and
  otherwise the event is dispatched and no error is written.
\<close>

theorem ServeHTTP_rejects:
  "(X_Hub_Signature r \<noteq> hmac lib (Secret h) (Body r) \<longrightarrow>
      ServeHTTP lib h r t =
        Some (t @ [HTTPError ''Could not validate signature: %v''
                     (Err ''payload signature check failed'') 400])) \<and>
   (X_Hub_Signature r = hmac lib (Secret h) (Body r) \<longrightarrow>
      (case ParseWebHook lib (X_GitHub_Event r) (Body r) of
         Inl e \<Rightarrow> ServeHTTP lib h r t = Some (t @ [HTTPError ''Error parsing payload: %v'' e 400])
       | Inr (PullRequest event) \<Rightarrow> ServeHTTP lib h r t = handlePullRequest h event t
       | Inr Ping \<Rightarrow> ServeHTTP lib h r t = Some t
       | Inr Other \<Rightarrow>
           ServeHTTP lib h r t =
             Some (t @ [Printf ''Unhandled hook type: %v'' [X_GitHub_Event r] None])))"
  by (simp add: ServeHTTP_def ValidatePayload_def WebHookType_def
      split: sum.splits webhook_event.splits)

theorem ServeHTTP_rejects_witness:
  "ServeHTTP plain_library \<lparr>Secret = ''s3cret'', GitHub = two_commits_remote\<rparr> forged_request []
     = Some [HTTPError ''Could not validate signature: %v''
               (Err ''payload signature check failed'') 400] \<and>
   ServeHTTP plain_library \<lparr>Secret = ''s3cret'', GitHub = two_commits_remote\<rparr> truncated_request []
     = Some [HTTPError ''Error parsing payload: %v'' (Err ''unexpected end of JSON input'') 400] \<and>
   ServeHTTP plain_library \<lparr>Secret = ''s3cret'', GitHub = two_commits_remote\<rparr> signed_request []
     = handlePullRequest \<lparr>Secret = ''s3cret'', GitHub = two_commits_remote\<rparr> pull_request_7 []"
  using
    ServeHTTP_rejects [of forged_request plain_library
      "\<lparr>Secret = ''s3cret'', GitHub = two_commits_remote\<rparr>" "[]"]
    ServeHTTP_rejects [of truncated_request plain_library
      "\<lparr>Secret = ''s3cret'', GitHub = two_commits_remote\<rparr>" "[]"]
    ServeHTTP_rejects [of signed_request plain_library
      "\<lparr>Secret = ''s3cret'', GitHub = two_commits_remote\<rparr>" "[]"]
  by (simp add: plain_library_def forged_request_def truncated_request_def signed_request_def)

section \<open>Properties of pkg/register\<close>

subsection \<open>hasSignOffHook\<close>

lemma hooks_listed_append: "hooks_listed (t @ u) = hooks_listed t @ hooks_listed u"
  by (induction t rule: hooks_listed.induct) simp_all











subsection \<open>addBranchProtection\<close>

lemma protection_writes_append:
  "protection_writes (t @ u) = protection_writes t @ protection_writes u"
  by (induction t rule: protection_writes.induct) simp_all

text \<open>
  C10 (the code departs from it): when the read of the branch protection fails without any
  HTTP response, the first test of \<open>addBranchProtection\<close> does not hold, since it asks
  for a response, and the next statement reads the status code of the nil response: the
  call ends in a panic, not in a returned error.
\<close>

theorem addBranchProtection_no_response:
  assumes "Repositories_GetBranchProtection gh t org (GetName repo) (GetDefaultBranch repo)
             = Failure e None"
  shows "addBranchProtection gh org repo t =
           (Panic, t @ [GetBranchProtection org (GetName repo) (GetDefaultBranch repo)
                          (Failure e None)])"
  using assms by (simp add: addBranchProtection_def other_than_404_def)

theorem addBranchProtection_no_response_witness:
  "addBranchProtection unreachable_remote ''acme'' widget [] =
     (Panic, [GetBranchProtection ''acme'' ''widget'' ''master''
                (Failure (Err ''dial tcp: i/o timeout'') None)])"
  using addBranchProtection_no_response
    [of unreachable_remote "[]" "''acme''" widget "Err ''dial tcp: i/o timeout''"]
  by (simp add: unreachable_remote_def widget_def)

text \<open>
  What is written when protection exists: the admin flag as it was read, the required
  checks as they were read (or a fresh non-strict block) with the context appended; and
  \<open>Register\<close> writes nothing when the listed contexts already hold the context.
\<close>

lemma addBranchProtection_request:
  "(\<forall>existing rp.
      Repositories_GetBranchProtection gh t org (GetName repo) (GetDefaultBranch repo)
        = Success existing rp \<and> StatusCode rp \<noteq> 404 \<longrightarrow>
      (\<exists>res t'. addBranchProtection gh org repo t = (Return res, t') \<and>
         protection_writes t' = protection_writes t @
           [(org, GetName repo, ''master'',
             \<lparr>req_EnforceAdmins = Enabled (EnforceAdmins existing),
              req_RequiredStatusChecks =
                Some (case RequiredStatusChecks existing of
                        None \<Rightarrow> \<lparr>Strict = False, Contexts = [SignOffCheckerContext]\<rparr>
                      | Some c \<Rightarrow> c\<lparr>Contexts := Contexts c @ [SignOffCheckerContext]\<rparr>)\<rparr>)])) \<and>
   (\<forall>contexts rp.
      Repositories_ListRequiredStatusChecksContexts gh t org (GetName repo) (GetDefaultBranch repo)
        = Success contexts rp \<and> StatusCode rp \<noteq> 404 \<and> SignOffCheckerContext \<in> set contexts \<longrightarrow>
      Register_protection gh dryRun org repo t =
        (Return None, t @ [ListRequiredStatusChecksContexts org (GetName repo)
                             (GetDefaultBranch repo) (Success contexts rp)]))"
proof (intro conjI allI impI)
  fix existing rp
  assume a: "Repositories_GetBranchProtection gh t org (GetName repo) (GetDefaultBranch repo)
        = Success existing rp \<and> StatusCode rp \<noteq> 404"
  then show "\<exists>res t'. addBranchProtection gh org repo t = (Return res, t') \<and>
         protection_writes t' = protection_writes t @
           [(org, GetName repo, ''master'',
             \<lparr>req_EnforceAdmins = Enabled (EnforceAdmins existing),
              req_RequiredStatusChecks =
                Some (case RequiredStatusChecks existing of
                        None \<Rightarrow> \<lparr>Strict = False, Contexts = [SignOffCheckerContext]\<rparr>
                      | Some c \<Rightarrow> c\<lparr>Contexts := Contexts c @ [SignOffCheckerContext]\<rparr>)\<rparr>)]"
    by (auto simp: addBranchProtection_def other_than_404_def Let_def protection_writes_append
        split: option.splits)
next
  fix contexts rp
  assume "Repositories_ListRequiredStatusChecksContexts gh t org (GetName repo) (GetDefaultBranch repo)
        = Success contexts rp \<and> StatusCode rp \<noteq> 404 \<and> SignOffCheckerContext \<in> set contexts"
  then show "Register_protection gh dryRun org repo t =
        (Return None, t @ [ListRequiredStatusChecksContexts org (GetName repo)
                             (GetDefaultBranch repo) (Success contexts rp)])"
    by (auto simp: Register_protection_def hasBranchProtection_def is404_def Let_def list_ex_iff)
qed

lemma protected_remote_answers:
  "Repositories_GetBranchProtection protected_remote t org repo branch =
     (case protection_now t repo branch of
        None \<Rightarrow> not_found
      | Some p \<Rightarrow>
          Success \<lparr>RequiredStatusChecks = req_RequiredStatusChecks p,
                   EnforceAdmins = \<lparr>Enabled = req_EnforceAdmins p\<rparr>\<rparr> ok)"
  "Repositories_ListRequiredStatusChecksContexts protected_remote t org repo branch =
     (case protection_now t repo branch of
        None \<Rightarrow> not_found
      | Some p \<Rightarrow>
          Success (case req_RequiredStatusChecks p of None \<Rightarrow> [] | Some c \<Rightarrow> Contexts c) ok)"
  "Repositories_UpdateBranchProtection protected_remote t org repo branch request = None"
  by (simp_all add: protected_remote_def quiet_remote_def)

lemma gadget_fields:
  "GetName gadget = ''gadget''" "GetFullName gadget = ''acme/gadget''"
  "GetDefaultBranch gadget = ''main''" "GetHTMLURL gadget = ''https://github.com/acme/gadget''"
  by (simp_all add: gadget_def)

lemma addBranchProtection_request_example:
  "addBranchProtection protected_remote ''acme'' widget [] =
     (Return None,
      [GetBranchProtection ''acme'' ''widget'' ''master''
         (Success \<lparr>RequiredStatusChecks = Some \<lparr>Strict = True, Contexts = [''ci/build'']\<rparr>,
                   EnforceAdmins = \<lparr>Enabled = False\<rparr>\<rparr> ok),
       UpdateBranchProtection ''acme'' ''widget'' ''master''
         \<lparr>req_EnforceAdmins = False,
          req_RequiredStatusChecks =
            Some \<lparr>Strict = True, Contexts = [''ci/build'', SignOffCheckerContext]\<rparr>\<rparr> None]) \<and>
   Register_protection protected_remote False ''acme'' widget
      [GetBranchProtection ''acme'' ''widget'' ''master''
         (Success \<lparr>RequiredStatusChecks = Some \<lparr>Strict = True, Contexts = [''ci/build'']\<rparr>,
                   EnforceAdmins = \<lparr>Enabled = False\<rparr>\<rparr> ok),
       UpdateBranchProtection ''acme'' ''widget'' ''master''
         \<lparr>req_EnforceAdmins = False,
          req_RequiredStatusChecks =
            Some \<lparr>Strict = True, Contexts = [''ci/build'', SignOffCheckerContext]\<rparr>\<rparr> None] =
     (Return None,
      [GetBranchProtection ''acme'' ''widget'' ''master''
         (Success \<lparr>RequiredStatusChecks = Some \<lparr>Strict = True, Contexts = [''ci/build'']\<rparr>,
                   EnforceAdmins = \<lparr>Enabled = False\<rparr>\<rparr> ok),
       UpdateBranchProtection ''acme'' ''widget'' ''master''
         \<lparr>req_EnforceAdmins = False,
          req_RequiredStatusChecks =
            Some \<lparr>Strict = True, Contexts = [''ci/build'', SignOffCheckerContext]\<rparr>\<rparr> None,
       ListRequiredStatusChecksContexts ''acme'' ''widget'' ''master''
         (Success [''ci/build'', SignOffCheckerContext] ok)])"
proof -
  let ?existing = "\<lparr>RequiredStatusChecks = Some \<lparr>Strict = True, Contexts = [''ci/build'']\<rparr>,
                   EnforceAdmins = \<lparr>Enabled = False\<rparr>\<rparr>"
  let ?request = "\<lparr>req_EnforceAdmins = False,
          req_RequiredStatusChecks =
            Some \<lparr>Strict = True, Contexts = [''ci/build'', SignOffCheckerContext]\<rparr>\<rparr>"
  let ?t1 = "[GetBranchProtection ''acme'' ''widget'' ''master'' (Success ?existing ok),
             UpdateBranchProtection ''acme'' ''widget'' ''master'' ?request None]"
  have w: "GetName widget = ''widget''" "GetDefaultBranch widget = ''master''"
    by (simp_all add: widget_def)
  have run: "addBranchProtection protected_remote ''acme'' widget [] = (Return None, ?t1)"
    by (simp add: addBranchProtection_def other_than_404_def protected_remote_answers
        protection_now_def ci_protection_def w ok_def Let_def)
  have "Register_protection protected_remote False ''acme'' widget ?t1 =
     (Return None, ?t1 @ [ListRequiredStatusChecksContexts ''acme'' ''widget'' ''master''
         (Success [''ci/build'', SignOffCheckerContext] ok)])"
    using addBranchProtection_request [of protected_remote ?t1 "''acme''" widget False]
    by (simp add: protected_remote_answers protection_now_def w ok_def)
  with run show ?thesis by simp
qed


text \<open>
  C2 (the code departs from it): \<open>addBranchProtection\<close> reads the protection of the
  default branch, and every write it issues is addressed to the branch \<open>master\<close>. For a
  repository whose default branch is not \<open>master\<close> the protection of the default branch
  is therefore not extended, and \<open>hasBranchProtection\<close>, which reads the default branch,
  still answers false afterwards.
\<close>

theorem addBranchProtection_writes_master:
  assumes "addBranchProtection gh org repo t = (res, t')"
  shows "\<exists>r u. t' = t @ GetBranchProtection org (GetName repo) (GetDefaultBranch repo) r # u \<and>
           list_all (\<lambda>w. w = (org, GetName repo, ''master'', snd (snd (snd w))))
             (protection_writes u)"
  using assms
  by (auto simp: addBranchProtection_def Let_def
      split: option.splits if_splits api_result.splits)

theorem addBranchProtection_writes_master_witness:
  "addBranchProtection protected_remote ''acme'' gadget [] =
     (Return None,
      [GetBranchProtection ''acme'' ''gadget'' ''main''
         (Success \<lparr>RequiredStatusChecks = Some \<lparr>Strict = True, Contexts = [''ci/build'']\<rparr>,
                   EnforceAdmins = \<lparr>Enabled = False\<rparr>\<rparr> ok),
       UpdateBranchProtection ''acme'' ''gadget'' ''master''
         \<lparr>req_EnforceAdmins = False,
          req_RequiredStatusChecks =
            Some \<lparr>Strict = True, Contexts = [''ci/build'', SignOffCheckerContext]\<rparr>\<rparr> None]) \<and>
   (\<exists>r u.
      [GetBranchProtection ''acme'' ''gadget'' ''main''
         (Success \<lparr>RequiredStatusChecks = Some \<lparr>Strict = True, Contexts = [''ci/build'']\<rparr>,
                   EnforceAdmins = \<lparr>Enabled = False\<rparr>\<rparr> ok),
       UpdateBranchProtection ''acme'' ''gadget'' ''master''
         \<lparr>req_EnforceAdmins = False,
          req_RequiredStatusChecks =
            Some \<lparr>Strict = True, Contexts = [''ci/build'', SignOffCheckerContext]\<rparr>\<rparr> None]
        = [] @ GetBranchProtection ''acme'' ''gadget'' ''main'' r # u \<and>
      list_all (\<lambda>w. w = (''acme'', ''gadget'', ''master'', snd (snd (snd w))))
        (protection_writes u)) \<and>
   hasBranchProtection protected_remote ''acme'' gadget
      [GetBranchProtection ''acme'' ''gadget'' ''main''
         (Success \<lparr>RequiredStatusChecks = Some \<lparr>Strict = True, Contexts = [''ci/build'']\<rparr>,
                   EnforceAdmins = \<lparr>Enabled = False\<rparr>\<rparr> ok),
       UpdateBranchProtection ''acme'' ''gadget'' ''master''
         \<lparr>req_EnforceAdmins = False,
          req_RequiredStatusChecks =
            Some \<lparr>Strict = True, Contexts = [''ci/build'', SignOffCheckerContext]\<rparr>\<rparr> None]
     = (Inr False,
      [GetBranchProtection ''acme'' ''gadget'' ''main''
         (Success \<lparr>RequiredStatusChecks = Some \<lparr>Strict = True, Contexts = [''ci/build'']\<rparr>,
                   EnforceAdmins = \<lparr>Enabled = False\<rparr>\<rparr> ok),
       UpdateBranchProtection ''acme'' ''gadget'' ''master''
         \<lparr>req_EnforceAdmins = False,
          req_RequiredStatusChecks =
            Some \<lparr>Strict = True, Contexts = [''ci/build'', SignOffCheckerContext]\<rparr>\<rparr> None,
       ListRequiredStatusChecksContexts ''acme'' ''gadget'' ''main'' (Success [''ci/build''] ok)])"
proof -
  let ?existing = "\<lparr>RequiredStatusChecks = Some \<lparr>Strict = True, Contexts = [''ci/build'']\<rparr>,
                   EnforceAdmins = \<lparr>Enabled = False\<rparr>\<rparr>"
  let ?request = "\<lparr>req_EnforceAdmins = False,
          req_RequiredStatusChecks =
            Some \<lparr>Strict = True, Contexts = [''ci/build'', SignOffCheckerContext]\<rparr>\<rparr>"
  let ?t1 = "[GetBranchProtection ''acme'' ''gadget'' ''main'' (Success ?existing ok),
             UpdateBranchProtection ''acme'' ''gadget'' ''master'' ?request None]"
  have ctx: "SignOffCheckerContext \<noteq> ''ci/build''"
    by (simp add: SignOffCheckerContext_def)
  have run: "addBranchProtection protected_remote ''acme'' gadget [] = (Return None, ?t1)"
    by (simp add: addBranchProtection_def other_than_404_def protected_remote_answers
        protection_now_def ci_protection_def gadget_fields ok_def Let_def)
  have after: "hasBranchProtection protected_remote ''acme'' gadget ?t1 =
      (Inr False, ?t1 @ [ListRequiredStatusChecksContexts ''acme'' ''gadget'' ''main''
                           (Success [''ci/build''] ok)])"
    using ctx
    by (simp add: hasBranchProtection_def protected_remote_answers protection_now_def
        ci_protection_def gadget_fields ok_def is404_def Let_def)
  from addBranchProtection_writes_master [OF run] run after show ?thesis
    by (simp add: gadget_fields)
qed

subsection \<open>Dry run\<close>















lemma widget_fields:
  "GetName widget = ''widget''" "GetFullName widget = ''acme/widget''"
  "GetDefaultBranch widget = ''master''" "GetHTMLURL widget = ''https://github.com/acme/widget''"
  by (simp_all add: widget_def)

lemma widget_contributing_url:
  "strings_Replace_1 (GetContentsURL widget) ''{+path}'' ''CONTRIBUTING.md'' =
     ''https://api.github.com/repos/acme/widget/contents/CONTRIBUTING.md''"
  by code_simp

lemma guide_isDCO: "isDCO ''Sign your work: Developer Certificate of Origin''"
  by code_simp


lemma plain_library_answers:
  "NewRequest plain_library method url = None"
  "DecodeString plain_library s = Inr s"
  by (simp_all add: plain_library_def)



subsection \<open>Errors end the sweep\<close>

text \<open>
  The loops of \<open>Register\<close> over a list that starts with repositories (organizations)
  that go through, and what \<open>repo_error\<close> and \<open>org_error\<close> mean for them.
\<close>

lemma Register_repos_append:
  "Register_repos lib gh dryRun org webhookURL webhookSecret before t = Some (Return None, t1)
    \<Longrightarrow> Register_repos lib gh dryRun org webhookURL webhookSecret (before @ rest) t =
        Register_repos lib gh dryRun org webhookURL webhookSecret rest t1"
proof (induction before arbitrary: t)
  case Nil
  then show ?case by simp
next
  case (Cons repo before)
  from Cons.prems obtain t0 where
    first: "Register_repo lib gh dryRun org webhookURL webhookSecret repo t = Some (Return None, t0)"
    and rest: "Register_repos lib gh dryRun org webhookURL webhookSecret before t0 = Some (Return None, t1)"
    by (auto split: option.splits outcome.splits)
  from Cons.IH [OF rest] first show ?case by simp
qed

lemma Register_append:
  "Register lib gh dryRun before webhookURL webhookSecret t = Some (Return None, t1)
    \<Longrightarrow> Register lib gh dryRun (before @ rest) webhookURL webhookSecret t =
        Register lib gh dryRun rest webhookURL webhookSecret t1"
proof (induction before arbitrary: t)
  case Nil
  then show ?case by simp
next
  case (Cons org before)
  define t0 where "t0 = t @ [Printf ''checking all repos in the %q organization'' [org] None]"
  from Cons.prems obtain repos ta tb where
    list: "listOrgRepos gh org t0 = Some (Inr repos, ta)"
    and inner: "Register_repos lib gh dryRun org webhookURL webhookSecret repos ta = Some (Return None, tb)"
    and rest: "Register lib gh dryRun before webhookURL webhookSecret tb = Some (Return None, t1)"
    unfolding t0_def
    by (auto simp: Let_def split: option.splits outcome.splits sum.splits)
  from Cons.IH [OF rest] list inner show ?case by (simp add: t0_def)
qed

lemma repo_error_returned:
  assumes "repo_error lib gh dryRun org webhookURL webhookSecret repo t e t'"
  shows "Register_repo lib gh dryRun org webhookURL webhookSecret repo t = Some (Return (Some e), t')"
  using assms
proof cases
  case (in_getContributing)
  then show ?thesis by (simp add: Register_repo_def)
next
  case (in_hasSignOffHook doc t1)
  then show ?thesis by (simp add: Register_repo_def Register_hook_def)
next
  case (in_addSignOffHook doc t1 t2)
  then show ?thesis by (simp add: Register_repo_def Register_hook_def)
next
  case (in_hasBranchProtection doc t1 t2)
  then show ?thesis by (simp add: Register_repo_def Register_protection_def)
next
  case (in_addBranchProtection doc t1 t2 t3)
  then show ?thesis by (simp add: Register_repo_def Register_protection_def)
qed

lemma org_error_returned:
  assumes "org_error lib gh dryRun org webhookURL webhookSecret t e t'"
  shows "Register lib gh dryRun (org # rest) webhookURL webhookSecret t = Some (Return (Some e), t')"
  using assms
proof cases
  case in_listOrgRepos
  then show ?thesis by simp
next
  case (in_repository before repo after t1 t2)
  from repo_error_returned [OF in_repository(3)]
  have "Register_repos lib gh dryRun org webhookURL webhookSecret (repo # after) t2 =
      Some (Return (Some e), t')" by simp
  with Register_repos_append [OF in_repository(2), of "repo # after"] in_repository(1)
  show ?thesis by simp
qed

lemma hooks_down_remote_answers:
  "Repositories_ListByOrg hooks_down_remote t org type opt = Success [widget] ok"
  "Client_Do hooks_down_remote t method url =
     Success ''Sign your work: Developer Certificate of Origin'' ok"
  "Repositories_ListHooks hooks_down_remote t org repo opt =
     (if org = ''globex''
      then Failure (Err ''500 Internal Server Error'') (Some \<lparr>StatusCode = 500, NextPage = 0\<rparr>)
      else Success [checker_hook] ok)"
  "Repositories_ListRequiredStatusChecksContexts hooks_down_remote t org repo branch =
     Success [SignOffCheckerContext] ok"
  by (simp_all add: hooks_down_remote_def dco_remote_def quiet_remote_def)

lemma checker_hook_url: "has_url ''https://checker.example.com/webhook'' checker_hook"
  by (simp add: has_url_def checker_hook_def)

text \<open>
  C3: let the organizations \<open>before\<close> go through without an error, and let an error
  \<open>e\<close> arise in the next organization: in repository discovery, in fetching the
  contribution guide, in \<open>hasSignOffHook\<close>, \<open>addSignOffHook\<close>,
  \<open>hasBranchProtection\<close> or \<open>addBranchProtection\<close>. Then \<open>Register\<close> returns \<open>e\<close>,
  and its trace is the trace at the moment the failing function returned: no repository
  and no organization after it is touched, and nothing is tried again.
\<close>

theorem Register_fails_fast:
  assumes "Register lib gh dryRun before webhookURL webhookSecret t = Some (Return None, t0)"
    and "org_error lib gh dryRun org webhookURL webhookSecret t0 e t'"
  shows "Register lib gh dryRun (before @ org # after) webhookURL webhookSecret t =
           Some (Return (Some e), t')"
  using Register_append [OF assms(1), of "org # after"] org_error_returned [OF assms(2), of after]
  by simp


theorem Register_fails_fast_witness:
  "Register plain_library hooks_down_remote False [''acme'']
     ''https://checker.example.com/webhook'' ''s3cret'' [] =
     Some (Return None,
       [Printf ''checking all repos in the %q organization'' [''acme''] None,
        ListByOrg ''acme'' ''all'' \<lparr>Page = 0, PerPage = 10\<rparr> (Success [widget] ok),
        Do ''GET'' ''https://api.github.com/repos/acme/widget/contents/CONTRIBUTING.md''
          (Success ''Sign your work: Developer Certificate of Origin'' ok),
        ListHooks ''acme'' ''widget'' \<lparr>Page = 0, PerPage = 10\<rparr> (Success [checker_hook] ok),
        ListRequiredStatusChecksContexts ''acme'' ''widget'' ''master''
          (Success [SignOffCheckerContext] ok)]) \<and>
   Register plain_library hooks_down_remote False ([''acme''] @ ''globex'' # [''initech''])
     ''https://checker.example.com/webhook'' ''s3cret'' [] =
     Some (Return (Some (Errorf ''Error listing hooks for %q: %v'' [''acme/widget'']
                           (Err ''500 Internal Server Error''))),
       [Printf ''checking all repos in the %q organization'' [''acme''] None,
        ListByOrg ''acme'' ''all'' \<lparr>Page = 0, PerPage = 10\<rparr> (Success [widget] ok),
        Do ''GET'' ''https://api.github.com/repos/acme/widget/contents/CONTRIBUTING.md''
          (Success ''Sign your work: Developer Certificate of Origin'' ok),
        ListHooks ''acme'' ''widget'' \<lparr>Page = 0, PerPage = 10\<rparr> (Success [checker_hook] ok),
        ListRequiredStatusChecksContexts ''acme'' ''widget'' ''master''
          (Success [SignOffCheckerContext] ok),
        Printf ''checking all repos in the %q organization'' [''globex''] None,
        ListByOrg ''globex'' ''all'' \<lparr>Page = 0, PerPage = 10\<rparr> (Success [widget] ok),
        Do ''GET'' ''https://api.github.com/repos/acme/widget/contents/CONTRIBUTING.md''
          (Success ''Sign your work: Developer Certificate of Origin'' ok),
        ListHooks ''globex'' ''widget'' \<lparr>Page = 0, PerPage = 10\<rparr>
          (Failure (Err ''500 Internal Server Error'')
             (Some \<lparr>StatusCode = 500, NextPage = 0\<rparr>))])"
proof -
  let ?url = "''https://checker.example.com/webhook''"
  let ?guide = "''Sign your work: Developer Certificate of Origin''"
  let ?do = "Do ''GET'' ''https://api.github.com/repos/acme/widget/contents/CONTRIBUTING.md''
          (Success ?guide ok)"
  let ?a0 = "[Printf ''checking all repos in the %q organization'' [''acme''] None]"
  let ?a1 = "?a0 @ [ListByOrg ''acme'' ''all'' \<lparr>Page = 0, PerPage = 10\<rparr> (Success [widget] ok)]"
  let ?a2 = "?a1 @ [?do]"
  let ?a3 = "?a2 @ [ListHooks ''acme'' ''widget'' \<lparr>Page = 0, PerPage = 10\<rparr> (Success [checker_hook] ok)]"
  let ?a4 = "?a3 @ [ListRequiredStatusChecksContexts ''acme'' ''widget'' ''master''
          (Success [SignOffCheckerContext] ok)]"
  let ?g0 = "?a4 @ [Printf ''checking all repos in the %q organization'' [''globex''] None]"
  let ?g1 = "?g0 @ [ListByOrg ''globex'' ''all'' \<lparr>Page = 0, PerPage = 10\<rparr> (Success [widget] ok)]"
  let ?g2 = "?g1 @ [?do]"
  let ?g3 = "?g2 @ [ListHooks ''globex'' ''widget'' \<lparr>Page = 0, PerPage = 10\<rparr>
          (Failure (Err ''500 Internal Server Error'')
             (Some \<lparr>StatusCode = 500, NextPage = 0\<rparr>))]"
  let ?e = "Errorf ''Error listing hooks for %q: %v'' [''acme/widget'']
              (Err ''500 Internal Server Error'')"
  have list: "\<And>org t. listOrgRepos hooks_down_remote org t =
      Some (Inr [widget], t @ [ListByOrg org ''all'' \<lparr>Page = 0, PerPage = 10\<rparr> (Success [widget] ok)])"
    by (simp add: listOrgRepos_def listOrgRepos_from.simps hooks_down_remote_answers ok_def)
  have guide: "\<And>t. getContributing plain_library hooks_down_remote widget t = (Inr ?guide, t @ [?do])"
    by (simp add: getContributing_def widget_contributing_url hooks_down_remote_answers
        plain_library_answers is404_def ok_def)
  have hookA: "hasSignOffHook hooks_down_remote ''acme'' widget ?url ?a2 = Some (Inr True, ?a3)"
    by (simp add: hasSignOffHook_def hasSignOffHook_from.simps hooks_down_remote_answers
        widget_fields is404_def ok_def checker_hook_url)
  have protA: "hasBranchProtection hooks_down_remote ''acme'' widget ?a3 = (Inr True, ?a4)"
    by (simp add: hasBranchProtection_def hooks_down_remote_answers widget_fields is404_def ok_def)
  have repoA: "Register_repo plain_library hooks_down_remote False ''acme'' ?url ''s3cret'' widget ?a1
      = Some (Return None, ?a4)"
    using guide [of ?a1] hookA protA
    by (simp add: Register_repo_def Register_hook_def Register_protection_def guide_isDCO)
  have acme: "Register plain_library hooks_down_remote False [''acme''] ?url ''s3cret'' [] =
      Some (Return None, ?a4)"
    using list [of "''acme''" ?a0] repoA by simp
  have hookG: "hasSignOffHook hooks_down_remote ''globex'' widget ?url ?g2 = Some (Inl ?e, ?g3)"
    by (simp add: hasSignOffHook_def hasSignOffHook_from.simps hooks_down_remote_answers
        widget_fields is404_def)
  have "repo_error plain_library hooks_down_remote False ''globex'' ?url ''s3cret'' widget ?g1 ?e ?g3"
    using guide [of ?g1] guide_isDCO hookG by (rule repo_error.in_hasSignOffHook)
  moreover have "listOrgRepos hooks_down_remote ''globex'' ?g0 = Some (Inr ([] @ widget # []), ?g1)"
    using list [of "''globex''" ?g0] by simp
  moreover have "Register_repos plain_library hooks_down_remote False ''globex'' ?url ''s3cret'' [] ?g1
      = Some (Return None, ?g1)" by simp
  ultimately have globex:
    "org_error plain_library hooks_down_remote False ''globex'' ?url ''s3cret'' ?a4 ?e ?g3"
    by (rule org_error.in_repository [rotated 2])
  from Register_fails_fast [OF acme globex, of "[''initech'']"] acme show ?thesis by simp
qed

end
